theory Spec2Isabelle
  imports Complex_Main "HOL-Library.Sublist"
begin

section \<open>Python values\<close>

text \<open>
  The extractors handle dynamically typed data: the parsed JSON of a raw GraphQL response
  (nested dicts and lists), tweet objects whose attributes are probed with \<open>hasattr\<close> and
  \<open>getattr\<close>, and the result dictionaries they build. \<open>pyval\<close> is the common value
  type. A dict is an association list in insertion order with string keys (lookup takes
  the binding of a key, a store replaces it in place or appends it); an object is the
  list of its data attributes. A string is the list of its code points, restricted to
  0..255. An integer is unbounded. A float is carried as a real number (NaN and the
  infinities are not represented).
\<close>

datatype pyval =
    PNone
  | PBool bool
  | PInt int
  | PFloat real
  | PStr string
  | PList "pyval list"
  | PDict "(string \<times> pyval) list"
  | PObj "(string \<times> pyval) list"

text \<open>Truth value testing (\<open>if x:\<close>, \<open>not x\<close>). An object without \<open>__bool__\<close> or
  \<open>__len__\<close> is true.\<close>

fun truthy :: "pyval \<Rightarrow> bool" where
  "truthy PNone = False"
| "truthy (PBool b) = b"
| "truthy (PInt i) = (i \<noteq> 0)"
| "truthy (PFloat x) = (x \<noteq> 0)"
| "truthy (PStr s) = (s \<noteq> [])"
| "truthy (PList xs) = (xs \<noteq> [])"
| "truthy (PDict kvs) = (kvs \<noteq> [])"
| "truthy (PObj attrs) = True"

text \<open>\<open>d[k] = v\<close> on the items of a dict: an existing key keeps its position.\<close>

primrec dict_set :: "string \<Rightarrow> pyval \<Rightarrow> (string \<times> pyval) list \<Rightarrow> (string \<times> pyval) list" where
  "dict_set k v [] = [(k, v)]"
| "dict_set k v (p # ps) = (if fst p = k then (k, v) # ps else p # dict_set k v ps)"

text \<open>A dict display \<open>{k1: v1, k2: v2, ...}\<close>: the items are stored from left to right, so
  a key written twice keeps its first position and its last value.\<close>

definition dict_literal :: "(string \<times> pyval) list \<Rightarrow> (string \<times> pyval) list" where
  "dict_literal items = foldl (\<lambda>d (k, v). dict_set k v d) [] items"

text \<open>\<open>d[k]\<close> read on the items of a dict (\<open>None\<close> stands for \<open>KeyError\<close>).\<close>

definition dict_lookup :: "(string \<times> pyval) list \<Rightarrow> string \<Rightarrow> pyval option" where
  "dict_lookup kvs k = map_of kvs k"

section \<open>The platform client, as seen by the extractors\<close>

text \<open>
  The twscrape client (\<open>self.api\<close>) is an external collaborator whose code is not part of
  the sources verified here. It is a parameter of every function below, with the
  interface the design gives it: each fetch either raises (\<open>Inl\<close> of the exception's
  message, the text \<open>str(e)\<close>) or answers a value. What a call answers may depend on
  the calls made before it, so every client function takes the log of the earlier calls,
  and every extractor function returns the log extended by the calls it made.
\<close>

datatype call =
    TweetDetails pyval
  | Search string int
  | TweetDetailsRaw pyval
  | TweetReplies pyval int

section \<open>thread\_extractor.py\<close>

text \<open>
  The tweet objects of twscrape, with the attributes \<open>_format_tweet\<close> reads. \<open>date\<close> is
  the timestamp given by its \<open>isoformat()\<close> text. \<open>inReplyToTweetId\<close> is \<open>None\<close> when the
  object has no such attribute (the code asks \<open>hasattr\<close>), \<open>Some None\<close> when it is Python's
  \<open>None\<close>.
\<close>

record User =
  id_user :: int
  username :: string

record Tweet =
  id_tweet :: int
  rawContent :: string
  user :: "User option"
  date :: "string option"
  likeCount :: int
  retweetCount :: int
  replyCount :: int
  quoteCount :: int
  inReplyToTweetId :: "int option option"

record thread_api =
  api_tweet_details :: "call list \<Rightarrow> pyval \<Rightarrow> string + Tweet option"
  api_tweet_replies :: "call list \<Rightarrow> pyval \<Rightarrow> int \<Rightarrow> string + Tweet list"

definition format_tweet :: "Tweet \<Rightarrow> (string \<times> pyval) list" where
  "format_tweet tweet = dict_literal
     [(''id'', PInt (id_tweet tweet)),
      (''content'', PStr (rawContent tweet)),
      (''author'', (case user tweet of Some u \<Rightarrow> PStr (username u) | None \<Rightarrow> PStr ''Unknown'')),
      (''author_id'', (case user tweet of Some u \<Rightarrow> PInt (id_user u) | None \<Rightarrow> PNone)),
      (''date'', (case date tweet of Some d \<Rightarrow> PStr d | None \<Rightarrow> PNone)),
      (''likes'', PInt (likeCount tweet)),
      (''retweets'', PInt (retweetCount tweet)),
      (''replies'', PInt (replyCount tweet)),
      (''quotes'', PInt (quoteCount tweet)),
      (''is_reply'', (case inReplyToTweetId tweet of
                        None \<Rightarrow> PBool False
                      | Some None \<Rightarrow> PNone
                      | Some (Some i) \<Rightarrow> PInt i)),
      (''replies'', PList [])]"

text \<open>
  \<open>_get_replies_recursive\<close>. The \<open>for\<close> loop over the fetched replies is \<open>replies_loop\<close>.
  The only statement of the \<open>try\<close> block that can raise is the awaited client call
  (formatting a \<open>Tweet\<close> and the recursive call, which catches everything itself,
  cannot), so the handler's \<open>return []\<close> is the \<open>Inl\<close> branch. Whatever makes the
  awaited call fail, a transport error or a method that cannot be awaited, is that
  branch. The depth and the bound are Python integers, so they may be negative.
\<close>

function get_replies_recursive ::
    "thread_api \<Rightarrow> call list \<Rightarrow> pyval \<Rightarrow> int \<Rightarrow> int \<Rightarrow> pyval list \<times> call list"
  and replies_loop ::
    "thread_api \<Rightarrow> call list \<Rightarrow> Tweet list \<Rightarrow> int \<Rightarrow> int \<Rightarrow> pyval list \<times> call list"
where
  "get_replies_recursive api calls tweet_id depth max_depth =
     (if depth \<ge> max_depth then ([], calls)
      else case api_tweet_replies api calls tweet_id 20 of
             Inl e \<Rightarrow> ([], calls @ [TweetReplies tweet_id 20])
           | Inr replies \<Rightarrow>
               replies_loop api (calls @ [TweetReplies tweet_id 20]) replies depth max_depth)"
| "replies_loop api calls [] depth max_depth = ([], calls)"
| "replies_loop api calls (reply # rest) depth max_depth =
     (case get_replies_recursive api calls (PInt (id_tweet reply)) (depth + 1) max_depth of
        (sub_replies, calls1) \<Rightarrow>
          (case replies_loop api calls1 rest depth max_depth of
             (formatted_replies, calls2) \<Rightarrow>
               (PDict (dict_set ''replies'' (PList sub_replies) (format_tweet reply))
                  # formatted_replies, calls2)))"
  by pat_completeness auto
termination
  by (relation "measures
        [(\<lambda>x. case x of
            Inl (api, calls, tweet_id, depth, max_depth) \<Rightarrow>
              (if depth \<ge> max_depth then 0 else 2 * nat (max_depth - depth) + 2)
          | Inr (api, calls, replies, depth, max_depth) \<Rightarrow>
              2 * nat (max_depth - depth) + 1),
         (\<lambda>x. case x of
            Inl _ \<Rightarrow> 0
          | Inr (api, calls, replies, depth, max_depth) \<Rightarrow> length replies)]") auto

text \<open>
  \<open>get_complete_thread\<close>. \<open>_check_accounts\<close> only writes to the logger and swallows every
  exception, so it leaves no trace here. The handler of the outer \<open>try\<close> is reached only
  from the first client call: \<open>_get_replies_recursive\<close> never raises.
\<close>

definition get_complete_thread ::
    "thread_api \<Rightarrow> call list \<Rightarrow> string \<Rightarrow> int \<Rightarrow> pyval \<times> call list" where
  "get_complete_thread api calls tweet_id max_depth =
     (let thread = dict_literal
            [(''original_tweet'', PNone),
             (''replies'', PList []),
             (''total_tweets'', PInt 0),
             (''max_depth'', PInt max_depth),
             (''error'', PNone)];
          calls1 = calls @ [TweetDetails (PStr tweet_id)]
      in case api_tweet_details api calls (PStr tweet_id) of
           Inl e \<Rightarrow>
             (PDict (dict_set ''error'' (PStr (''Error extracting thread: '' @ e)) thread), calls1)
         | Inr None \<Rightarrow>
             (PDict (dict_set ''error''
                       (PStr (''Could not find original tweet: '' @ tweet_id)) thread), calls1)
         | Inr (Some original_tweet) \<Rightarrow>
             (case get_replies_recursive api calls1 (PStr tweet_id) 0 max_depth of
                (replies, calls2) \<Rightarrow>
                  (PDict (dict_set ''total_tweets'' (PInt (1 + int (length replies)))
                           (dict_set ''replies'' (PList replies)
                             (dict_set ''original_tweet'' (PDict (format_tweet original_tweet))
                                thread))),
                   calls2)))"

section \<open>Python strings\<close>

text \<open>The line feed of the source's triple-quoted strings.\<close>

definition nl :: string where
  "nl = [CHR 0x0A]"

text \<open>\<open>str.isspace\<close> on one code point below 256: TAB..CR, FS..US, the space, NEL and the
  no-break space.\<close>

definition py_isspace :: "char \<Rightarrow> bool" where
  "py_isspace c =
     (let n = (of_char c :: nat)
      in (9 \<le> n \<and> n \<le> 13) \<or> (28 \<le> n \<and> n \<le> 32) \<or> n = 133 \<or> n = 160)"

text \<open>\<open>s.strip()\<close>.\<close>

definition py_strip :: "string \<Rightarrow> string" where
  "py_strip s = rev (dropWhile py_isspace (rev (dropWhile py_isspace s)))"

text \<open>\<open>s.split()\<close>: the maximal runs of characters that are not whitespace. \<open>w\<close> is the
  word being read.\<close>

fun split_from :: "string \<Rightarrow> string \<Rightarrow> string list" where
  "split_from w [] = (if w = [] then [] else [w])"
| "split_from w (c # cs) =
     (if py_isspace c then (if w = [] then split_from [] cs else w # split_from [] cs)
      else split_from (w @ [c]) cs)"

definition py_split :: "string \<Rightarrow> string list" where
  "py_split s = split_from [] s"

text \<open>\<open>s.lower()\<close> on code points below 256: the ASCII capitals and the Latin-1 capitals
  (all of 0xC0..0xDE but the multiplication sign) move up by 32.\<close>

definition py_lower_char :: "char \<Rightarrow> char" where
  "py_lower_char c =
     (let n = (of_char c :: nat)
      in if (65 \<le> n \<and> n \<le> 90) \<or> (192 \<le> n \<and> n \<le> 222 \<and> n \<noteq> 215)
         then char_of (n + 32) else c)"

definition py_lower :: "string \<Rightarrow> string" where
  "py_lower s = map py_lower_char s"

text \<open>\<open>sub in s\<close> for two strings.\<close>

fun py_in_str :: "string \<Rightarrow> string \<Rightarrow> bool" where
  "py_in_str sub [] = (sub = [])"
| "py_in_str sub (c # cs) = (prefix sub (c # cs) \<or> py_in_str sub cs)"

text \<open>\<open>str(i)\<close> for an integer: the decimal digits, with a minus sign below zero
  (the interpreter's limit on the number of digits it converts is not modelled).\<close>

definition digit_char :: "nat \<Rightarrow> char" where
  "digit_char d = char_of (48 + d)"

function str_nat :: "nat \<Rightarrow> string" where
  "str_nat n = (if n < 10 then [digit_char n] else str_nat (n div 10) @ [digit_char (n mod 10)])"
  by pat_completeness auto
termination
  by (relation "measure (\<lambda>n. n)") auto

declare str_nat.simps [simp del]

definition str_int :: "int \<Rightarrow> string" where
  "str_int i = (if i < 0 then CHR ''-'' # str_nat (nat (- i)) else str_nat (nat i))"

text \<open>
  \<open>repr(s)\<close> for a string of code points below 256, as CPython writes it: the string is
  quoted with double quotes when it holds a single quote and no double quote, with
  single quotes otherwise; the quote character and the backslash are escaped with a
  backslash; TAB, LF and CR become \<open>\t\<close>, \<open>\n\<close>, \<open>\r\<close>; every other code point that is
  not printable (below 0x20, 0x7F..0xA0, 0xAD) becomes \<open>\xNN\<close> with two lower-case
  hexadecimal digits.
\<close>

definition hex_digit :: "nat \<Rightarrow> char" where
  "hex_digit d = (if d < 10 then char_of (48 + d) else char_of (87 + d))"

definition py_isprintable :: "char \<Rightarrow> bool" where
  "py_isprintable c =
     (let n = (of_char c :: nat)
      in (32 \<le> n \<and> n \<le> 126) \<or> (161 \<le> n \<and> n \<noteq> 173))"

definition repr_char :: "char \<Rightarrow> char \<Rightarrow> string" where
  "repr_char quote c =
     (if c = quote \<or> c = CHR 0x5C then [CHR 0x5C, c]
      else if c = CHR 0x09 then [CHR 0x5C, CHR ''t'']
      else if c = CHR 0x0A then [CHR 0x5C, CHR ''n'']
      else if c = CHR 0x0D then [CHR 0x5C, CHR ''r'']
      else if py_isprintable c then [c]
      else [CHR 0x5C, CHR ''x'', hex_digit ((of_char c :: nat) div 16),
            hex_digit ((of_char c :: nat) mod 16)])"

definition repr_quote :: "string \<Rightarrow> char" where
  "repr_quote s = (if CHR 0x27 \<in> set s \<and> CHR 0x22 \<notin> set s then CHR 0x22 else CHR 0x27)"

definition py_repr_str :: "string \<Rightarrow> string" where
  "py_repr_str s = [repr_quote s] @ concat (map (repr_char (repr_quote s)) s) @ [repr_quote s]"

text \<open>\<open>sep.join(xs)\<close> and \<open>str(xs)\<close> for a list of strings: \<open>[\<close>, the \<open>repr\<close> of the
  elements separated by a comma and a space, \<open>]\<close>.\<close>

fun py_join :: "string \<Rightarrow> string list \<Rightarrow> string" where
  "py_join sep [] = []"
| "py_join sep [x] = x"
| "py_join sep (x # y # ys) = x @ sep @ py_join sep (y # ys)"

definition py_str_list :: "string list \<Rightarrow> string" where
  "py_str_list xs = ''['' @ py_join '', '' (map py_repr_str xs) @ '']''"

section \<open>Operations on Python values\<close>

text \<open>
  The faults the interpreter raises when an operation does not fit the value it is
  applied to. A function that can raise returns a sum, \<open>Inl\<close> the fault.
\<close>

datatype fault = AttributeError | TypeError | KeyError

definition and_then :: "'e + 'a \<Rightarrow> ('a \<Rightarrow> 'e + 'b) \<Rightarrow> 'e + 'b" where
  "and_then r f = (case r of Inl e \<Rightarrow> Inl e | Inr x \<Rightarrow> f x)"

text \<open>
  What the interpreter itself prints is not part of the repository and is passed in:
  \<open>repr_of\<close> is \<open>str(v)\<close> for the values whose text is not fixed below (floats,
  containers, objects), \<open>fault_text\<close> is \<open>str(e)\<close> for an exception the interpreter
  raised.
\<close>

record runtime =
  repr_of :: "pyval \<Rightarrow> string"
  fault_text :: "fault \<Rightarrow> string"

text \<open>\<open>str(v)\<close>, and \<open>{v}\<close> in an f-string.\<close>

fun py_str :: "runtime \<Rightarrow> pyval \<Rightarrow> string" where
  "py_str rt (PStr s) = s"
| "py_str rt (PInt i) = str_int i"
| "py_str rt PNone = ''None''"
| "py_str rt (PBool b) = (if b then ''True'' else ''False'')"
| "py_str rt v = repr_of rt v"

text \<open>\<open>obj.get(key, default)\<close>. Only a dict has the method; an object that carries a data
  attribute named \<open>get\<close> cannot be called.\<close>

fun py_get :: "pyval \<Rightarrow> string \<Rightarrow> pyval \<Rightarrow> fault + pyval" where
  "py_get (PDict kvs) key dflt = Inr (case map_of kvs key of Some v \<Rightarrow> v | None \<Rightarrow> dflt)"
| "py_get (PObj attrs) key dflt =
     (if ''get'' \<in> fst ` set attrs then Inl TypeError else Inl AttributeError)"
| "py_get _ key dflt = Inl AttributeError"

text \<open>\<open>list(obj.keys())\<close>.\<close>

fun py_keys :: "pyval \<Rightarrow> fault + string list" where
  "py_keys (PDict kvs) = Inr (map fst kvs)"
| "py_keys (PObj attrs) =
     (if ''keys'' \<in> fst ` set attrs then Inl TypeError else Inl AttributeError)"
| "py_keys _ = Inl AttributeError"

text \<open>\<open>len(v)\<close>.\<close>

fun py_len :: "pyval \<Rightarrow> fault + nat" where
  "py_len (PList xs) = Inr (length xs)"
| "py_len (PDict kvs) = Inr (length kvs)"
| "py_len (PStr s) = Inr (length s)"
| "py_len _ = Inl TypeError"

text \<open>The items a \<open>for\<close> loop (or \<open>enumerate\<close>) draws from a value: the elements of a
  list, the keys of a dict, the characters of a string.\<close>

fun py_iter :: "pyval \<Rightarrow> fault + pyval list" where
  "py_iter (PList xs) = Inr xs"
| "py_iter (PDict kvs) = Inr (map (\<lambda>kv. PStr (fst kv)) kvs)"
| "py_iter (PStr s) = Inr (map (\<lambda>c. PStr [c]) s)"
| "py_iter _ = Inl TypeError"

text \<open>\<open>key in v\<close> for a string \<open>key\<close>: a key of a dict, an element of a list, a substring
  of a string.\<close>

fun py_contains :: "pyval \<Rightarrow> string \<Rightarrow> fault + bool" where
  "py_contains (PDict kvs) key = Inr (key \<in> fst ` set kvs)"
| "py_contains (PList xs) key = Inr (PStr key \<in> set xs)"
| "py_contains (PStr s) key = Inr (py_in_str key s)"
| "py_contains _ key = Inl TypeError"

text \<open>\<open>v[key]\<close> for a string \<open>key\<close>.\<close>

fun py_getitem :: "pyval \<Rightarrow> string \<Rightarrow> fault + pyval" where
  "py_getitem (PDict kvs) key = (case map_of kvs key of Some v \<Rightarrow> Inr v | None \<Rightarrow> Inl KeyError)"
| "py_getitem _ key = Inl TypeError"

text \<open>\<open>v[:100]\<close>.\<close>

fun py_slice100 :: "pyval \<Rightarrow> fault + pyval" where
  "py_slice100 (PStr s) = Inr (PStr (take 100 s))"
| "py_slice100 (PList xs) = Inr (PList (take 100 xs))"
| "py_slice100 _ = Inl TypeError"

text \<open>\<open>len(v.split())\<close>.\<close>

fun py_word_count :: "pyval \<Rightarrow> fault + nat" where
  "py_word_count (PStr s) = Inr (length (py_split s))"
| "py_word_count (PObj attrs) =
     (if ''split'' \<in> fst ` set attrs then Inl TypeError else Inl AttributeError)"
| "py_word_count _ = Inl AttributeError"

text \<open>
  \<open>hasattr\<close>, \<open>getattr\<close> with a default and plain attribute access, for the attribute
  names the extractor asks for (\<open>rawContent\<close>, \<open>user\<close>, \<open>username\<close>, \<open>screen_name\<close>,
  \<open>get\<close>, \<open>date\<close>, \<open>likeCount\<close>, \<open>retweetCount\<close>, \<open>replyCount\<close>, \<open>quoteCount\<close>): an
  object has its data attributes, a dict has \<open>get\<close>, the other values have none of them.
\<close>

fun py_hasattr :: "pyval \<Rightarrow> string \<Rightarrow> bool" where
  "py_hasattr (PObj attrs) name = (name \<in> fst ` set attrs)"
| "py_hasattr (PDict kvs) name = (name = ''get'')"
| "py_hasattr _ name = False"

fun py_getattr :: "pyval \<Rightarrow> string \<Rightarrow> pyval \<Rightarrow> pyval" where
  "py_getattr (PObj attrs) name dflt = (case map_of attrs name of Some v \<Rightarrow> v | None \<Rightarrow> dflt)"
| "py_getattr _ name dflt = dflt"

fun py_attr :: "pyval \<Rightarrow> string \<Rightarrow> fault + pyval" where
  "py_attr (PObj attrs) name =
     (case map_of attrs name of Some v \<Rightarrow> Inr v | None \<Rightarrow> Inl AttributeError)"
| "py_attr _ name = Inl AttributeError"

section \<open>social\_media\_extractor.py\<close>

text \<open>
  The client of \<open>SocialMediaExtractor\<close>. \<open>tweet_details\<close> answers a tweet object or
  \<open>None\<close>; \<open>search\<close> is an asynchronous iterator, given here by the items it yields
  (\<open>Inl\<close> when it raises before the first one; the code reads at most one);
  \<open>tweet_details_raw\<close> answers an HTTP response or \<open>None\<close>. A response has its status
  code and the outcome of \<open>json()\<close>, which raises on a body that is not JSON. A response
  object is true.
\<close>

record response =
  status_code :: int
  json :: "string + pyval"

record extractor_api =
  tweet_details :: "call list \<Rightarrow> string \<Rightarrow> string + pyval"
  search :: "call list \<Rightarrow> string \<Rightarrow> int \<Rightarrow> string + pyval list"
  tweet_details_raw :: "call list \<Rightarrow> string \<Rightarrow> string + response option"

text \<open>An exception caught by \<open>except Exception as e\<close>: raised by the client, with its
  text, or by the interpreter.\<close>

datatype exn = Raised string | Fault fault

fun exn_text :: "runtime \<Rightarrow> exn \<Rightarrow> string" where
  "exn_text rt (Raised msg) = msg"
| "exn_text rt (Fault f) = fault_text rt f"

definition lift_fault :: "fault + 'a \<Rightarrow> exn + 'a" where
  "lift_fault r = (case r of Inl f \<Rightarrow> Inl (Fault f) | Inr x \<Rightarrow> Inr x)"

definition lift_raised :: "string + 'a \<Rightarrow> exn + 'a" where
  "lift_raised r = (case r of Inl msg \<Rightarrow> Inl (Raised msg) | Inr x \<Rightarrow> Inr x)"

subsection \<open>\_diagnose\_tweet\_accessibility\<close>

record diagnosis =
  diag_tweet_id :: string
  accessible :: bool
  reasons :: "string list"
  suggestions :: "string list"

definition add_reason :: "string \<Rightarrow> diagnosis \<Rightarrow> diagnosis" where
  "add_reason r d = d\<lparr>reasons := reasons d @ [r]\<rparr>"

definition add_suggestion :: "string \<Rightarrow> diagnosis \<Rightarrow> diagnosis" where
  "add_suggestion s d = d\<lparr>suggestions := suggestions d @ [s]\<rparr>"

text \<open>
  Each of the three tests is a \<open>try\<close> block. A test answers \<open>Inl d\<close> when it executes
  \<open>return diagnosis\<close> and \<open>Inr d\<close> when control falls through to the next statement.
  Test 1 (\<open>tweet_details\<close>):
\<close>

definition test_tweet_details ::
    "extractor_api \<Rightarrow> call list \<Rightarrow> string \<Rightarrow> diagnosis \<Rightarrow> diagnosis + diagnosis" where
  "test_tweet_details api calls tweet_id d =
     (case tweet_details api calls tweet_id of
        Inr tweet \<Rightarrow>
          if truthy tweet
          then Inl (add_reason ''tweet_details method succeeded'' (d\<lparr>accessible := True\<rparr>))
          else Inr (add_reason ''tweet_details returned None'' d)
      | Inl e \<Rightarrow> Inr (add_reason (''tweet_details failed: '' @ e) d))"

text \<open>Test 2 (\<open>search\<close>): the loop appends the first item and breaks.\<close>

definition test_search ::
    "extractor_api \<Rightarrow> call list \<Rightarrow> string \<Rightarrow> diagnosis \<Rightarrow> diagnosis + diagnosis" where
  "test_search api calls tweet_id d =
     (case search api calls (''id:'' @ tweet_id) 1 of
        Inr items \<Rightarrow>
          (let search_results = take 1 items
           in if search_results \<noteq> [] \<and> length search_results > 0
              then Inl (add_reason ''search method succeeded'' (d\<lparr>accessible := True\<rparr>))
              else Inr (add_reason ''search returned no results'' d))
      | Inl e \<Rightarrow> Inr (add_reason (''search failed: '' @ e) d))"

text \<open>
  Test 3 (raw request). Everything that can raise in the \<open>try\<close> block (the client call,
  \<open>json()\<close>, \<open>in\<close>, subscription, \<open>len\<close>) comes before the one statement that appends, so
  the block either raises with the diagnosis untouched or ends with the diagnosis
  updated: \<open>raw_request_body\<close>. The handler appends the exception's text.
\<close>

definition raw_request_body ::
    "extractor_api \<Rightarrow> call list \<Rightarrow> string \<Rightarrow> diagnosis \<Rightarrow> exn + diagnosis" where
  "raw_request_body api calls tweet_id d =
     and_then (lift_raised (tweet_details_raw api calls tweet_id)) (\<lambda>raw_response.
       case raw_response of
         None \<Rightarrow> Inr (add_reason ''Raw request returned None'' d)
       | Some resp \<Rightarrow>
           if status_code resp = 200 then
             and_then (lift_raised (json resp)) (\<lambda>data.
             and_then (lift_fault (py_contains data ''data'')) (\<lambda>has_data.
             and_then (if has_data
                       then and_then (lift_fault (py_getitem data ''data'')) (\<lambda>inner.
                              lift_fault (py_contains inner ''tweet_detail''))
                       else Inr False) (\<lambda>has_detail.
               if has_detail then
                 and_then (lift_fault (py_getitem data ''data'')) (\<lambda>inner.
                 and_then (lift_fault (py_getitem inner ''tweet_detail'')) (\<lambda>tweet_detail.
                 and_then (lift_fault (py_contains tweet_detail ''instructions'')) (\<lambda>has_instr.
                   if has_instr then
                     and_then (lift_fault (py_getitem tweet_detail ''instructions'')) (\<lambda>instructions.
                     and_then (lift_fault (py_len instructions)) (\<lambda>n.
                       if n = 0
                       then Inr (add_suggestion
                                   ''This tweet may have been deleted or is from a private account''
                                   (add_reason
                                      ''Tweet detail has no instructions - likely deleted or private'' d))
                       else Inr (add_reason ''Raw request succeeded but tweet not parseable'' d)))
                   else Inr (add_reason ''Tweet detail missing instructions'' d))))
               else Inr (add_reason ''Response missing tweet detail data'' d))))
           else Inr (add_reason
                       (''Raw request failed with status '' @ str_int (status_code resp)) d))"

definition test_raw_request ::
    "runtime \<Rightarrow> extractor_api \<Rightarrow> call list \<Rightarrow> string \<Rightarrow> diagnosis \<Rightarrow> diagnosis" where
  "test_raw_request rt api calls tweet_id d =
     (case raw_request_body api calls tweet_id d of
        Inr d' \<Rightarrow> d'
      | Inl e \<Rightarrow> add_reason (''Raw request failed: '' @ exn_text rt e) d)"

text \<open>The suggestions matched on the text of the reasons, then the two general ones.\<close>

definition common_suggestions :: "diagnosis \<Rightarrow> diagnosis" where
  "common_suggestions d =
     (let text = py_lower (py_str_list (reasons d));
          d1 = (if py_in_str ''deleted'' text
                then add_suggestion ''Tweet may have been deleted by the author'' d else d);
          d2 = (if py_in_str ''private'' text
                then add_suggestion ''Tweet may be from a private account'' d1 else d1);
          d3 = (if py_in_str ''rate limit'' text
                then add_suggestion ''Rate limit reached - try again later'' d2 else d2)
      in add_suggestion ''Check if the tweet URL is still accessible in a browser''
           (add_suggestion
              ''Try testing with a different tweet ID to verify the system works'' d3))"

definition diagnose_tweet_accessibility ::
    "runtime \<Rightarrow> extractor_api \<Rightarrow> call list \<Rightarrow> string \<Rightarrow> diagnosis \<times> call list" where
  "diagnose_tweet_accessibility rt api calls tweet_id =
     (let d0 = \<lparr>diag_tweet_id = tweet_id, accessible = False, reasons = [], suggestions = []\<rparr>;
          calls1 = calls @ [TweetDetails (PStr tweet_id)]
      in case test_tweet_details api calls tweet_id d0 of
           Inl d \<Rightarrow> (d, calls1)
         | Inr d1 \<Rightarrow>
             (let calls2 = calls1 @ [Search (''id:'' @ tweet_id) 1]
              in case test_search api calls1 tweet_id d1 of
                   Inl d \<Rightarrow> (d, calls2)
                 | Inr d2 \<Rightarrow>
                     (let calls3 = calls2 @ [TweetDetailsRaw (PStr tweet_id)]
                      in (common_suggestions (test_raw_request rt api calls2 tweet_id d2),
                          calls3))))"

subsection \<open>The three retrieval methods\<close>

text \<open>Each method catches every exception and answers \<open>None\<close> then. The second
  component of the result is the call log, extended by the client call made.\<close>

definition try_tweet_details ::
    "extractor_api \<Rightarrow> call list \<Rightarrow> string \<Rightarrow> pyval \<times> call list" where
  "try_tweet_details api calls tweet_id =
     ((case tweet_details api calls tweet_id of
         Inr tweet \<Rightarrow> if truthy tweet then tweet else PNone
       | Inl e \<Rightarrow> PNone),
      calls @ [TweetDetails (PStr tweet_id)])"

definition try_search_method ::
    "extractor_api \<Rightarrow> call list \<Rightarrow> string \<Rightarrow> pyval \<times> call list" where
  "try_search_method api calls tweet_id =
     ((case search api calls (''id:'' @ tweet_id) 1 of
         Inr items \<Rightarrow>
           (let search_results = take 1 items
            in if search_results \<noteq> [] \<and> length search_results > 0
               then hd search_results else PNone)
       | Inl e \<Rightarrow> PNone),
      calls @ [Search (''id:'' @ tweet_id) 1])"

definition try_raw_request ::
    "extractor_api \<Rightarrow> call list \<Rightarrow> string \<Rightarrow> pyval \<times> call list" where
  "try_raw_request api calls tweet_id =
     ((case tweet_details_raw api calls tweet_id of
         Inr (Some resp) \<Rightarrow>
           if status_code resp = 200
           then (case json resp of Inr data \<Rightarrow> data | Inl e \<Rightarrow> PNone)
           else PNone
       | Inr None \<Rightarrow> PNone
       | Inl e \<Rightarrow> PNone),
      calls @ [TweetDetailsRaw (PStr tweet_id)])"

subsection \<open>\_extract\_from\_tweet\_object\<close>

text \<open>The body of the \<open>try\<close> block; the statements that only log are kept where they can
  raise (\<open>content[:100]\<close>).\<close>

definition tweet_object_body :: "runtime \<Rightarrow> pyval \<Rightarrow> string \<Rightarrow> fault + pyval" where
  "tweet_object_body rt tweet_data tweet_id =
     and_then (if py_hasattr tweet_data ''rawContent'' then py_attr tweet_data ''rawContent''
               else Inr (PStr (py_str rt tweet_data))) (\<lambda>content.
     and_then (py_slice100 content) (\<lambda>logged.
     and_then (if py_hasattr tweet_data ''user'' then
                 and_then (py_attr tweet_data ''user'') (\<lambda>user.
                   if py_hasattr user ''username'' then py_attr user ''username''
                   else if py_hasattr user ''screen_name'' then py_attr user ''screen_name''
                   else if py_hasattr user ''get'' then py_get user ''username'' (PStr ''Unknown'')
                   else Inr (PStr (py_str rt user)))
               else Inr (PStr ''Unknown'')) (\<lambda>author.
       let date = py_getattr tweet_data ''date'' PNone;
           likes = py_getattr tweet_data ''likeCount'' (PInt 0);
           retweets = py_getattr tweet_data ''retweetCount'' (PInt 0);
           replies = py_getattr tweet_data ''replyCount'' (PInt 0);
           quotes = py_getattr tweet_data ''quoteCount'' (PInt 0);
           metadata = dict_literal
             [(''tweet_id'', PStr tweet_id),
              (''author'', author),
              (''date'', date),
              (''likes'', likes),
              (''retweets'', retweets),
              (''replies'', replies),
              (''quotes'', quotes)];
           formatted_content = py_strip (concat
             [nl, ''Twitter/X Post by @'', py_str rt author, nl,
              ''Tweet ID: '', tweet_id, nl,
              ''Posted: '', py_str rt date, nl,
              nl,
              ''Content:'', nl,
              py_str rt content, nl,
              nl,
              ''Engagement:'', nl,
              ''- Likes: '', py_str rt likes, nl,
              ''- Retweets: '', py_str rt retweets, nl,
              ''- Replies: '', py_str rt replies, nl,
              ''- Quotes: '', py_str rt quotes, nl])
       in and_then (py_word_count content) (\<lambda>word_count.
            Inr (PDict (dict_literal
              [(''success'', PBool True),
               (''title'', PStr (''Twitter/X Post by @'' @ py_str rt author)),
               (''extracted_content'', PStr formatted_content),
               (''word_count'', PInt (int word_count)),
               (''metadata'', PDict metadata)]))))))"

definition extract_from_tweet_object :: "runtime \<Rightarrow> pyval \<Rightarrow> string \<Rightarrow> pyval option" where
  "extract_from_tweet_object rt tweet_data tweet_id =
     (case tweet_object_body rt tweet_data tweet_id of
        Inr result \<Rightarrow> Some result
      | Inl e \<Rightarrow> None)"

subsection \<open>\_extract\_from\_raw\_response\<close>

text \<open>
  The body of the inner \<open>for\<close> loop, for one entry: \<open>Inr (Some result)\<close> when it executes
  \<open>return\<close>, \<open>Inr None\<close> when the loop goes on to the next entry, \<open>Inl\<close> when it raises.
\<close>

definition tweet_entry :: "runtime \<Rightarrow> string \<Rightarrow> pyval \<Rightarrow> fault + pyval option" where
  "tweet_entry rt tweet_id entry =
     and_then (py_get entry ''content'' (PDict [])) (\<lambda>content0.
     and_then (py_get content0 ''entryType'' (PStr ''unknown'')) (\<lambda>entry_type.
       if entry_type = PStr ''Tweet'' then
         and_then (py_get entry ''content'' (PDict [])) (\<lambda>content1.
         and_then (py_get content1 ''itemContent'' (PDict [])) (\<lambda>item_content.
         and_then (py_get item_content ''tweet_results'' (PDict [])) (\<lambda>tweet_results.
         and_then (py_get tweet_results ''result'' (PDict [])) (\<lambda>tweet_content.
         and_then (py_keys tweet_content) (\<lambda>logged_keys.
           if truthy tweet_content then
             and_then (py_get tweet_content ''legacy'' (PDict [])) (\<lambda>legacy.
             and_then (py_keys legacy) (\<lambda>logged_legacy.
             and_then (py_get legacy ''full_text'' (PStr [])) (\<lambda>tweet_text.
             and_then (py_slice100 tweet_text) (\<lambda>logged_text.
             and_then (py_get tweet_content ''core'' (PDict [])) (\<lambda>core.
             and_then (py_get core ''user_results'' (PDict [])) (\<lambda>user_results.
             and_then (py_get user_results ''result'' (PDict [])) (\<lambda>result.
             and_then (py_get result ''legacy'' (PDict [])) (\<lambda>user_legacy.
             and_then (py_get user_legacy ''screen_name'' (PStr ''Unknown'')) (\<lambda>author.
             and_then (py_get legacy ''favorite_count'' (PInt 0)) (\<lambda>likes.
             and_then (py_get legacy ''retweet_count'' (PInt 0)) (\<lambda>retweets.
             and_then (py_get legacy ''reply_count'' (PInt 0)) (\<lambda>replies.
             and_then (py_get legacy ''quote_count'' (PInt 0)) (\<lambda>quotes.
               let formatted_content = py_strip (concat
                     [nl, ''Twitter/X Post by @'', py_str rt author, nl,
                      ''Tweet ID: '', tweet_id, nl,
                      nl,
                      ''Content:'', nl,
                      py_str rt tweet_text, nl,
                      nl,
                      ''Engagement:'', nl,
                      ''- Likes: '', py_str rt likes, nl,
                      ''- Retweets: '', py_str rt retweets, nl,
                      ''- Replies: '', py_str rt replies, nl,
                      ''- Quotes: '', py_str rt quotes, nl]);
                   metadata = dict_literal
                     [(''tweet_id'', PStr tweet_id),
                      (''author'', author),
                      (''likes'', likes),
                      (''retweets'', retweets),
                      (''replies'', replies),
                      (''quotes'', quotes)]
               in and_then (py_word_count tweet_text) (\<lambda>word_count.
                    Inr (Some (PDict (dict_literal
                      [(''success'', PBool True),
                       (''title'', PStr (''Twitter/X Post by @'' @ py_str rt author)),
                       (''extracted_content'', PStr formatted_content),
                       (''word_count'', PInt (int word_count)),
                       (''metadata'', PDict metadata)])))))))))))))))))
           else Inr None)))))
       else Inr None))"

fun entries_loop :: "runtime \<Rightarrow> string \<Rightarrow> pyval list \<Rightarrow> fault + pyval option" where
  "entries_loop rt tweet_id [] = Inr None"
| "entries_loop rt tweet_id (entry # rest) =
     (case tweet_entry rt tweet_id entry of
        Inl f \<Rightarrow> Inl f
      | Inr (Some result) \<Rightarrow> Inr (Some result)
      | Inr None \<Rightarrow> entries_loop rt tweet_id rest)"

text \<open>The body of the outer \<open>for\<close> loop, for one instruction. The first \<open>get\<close> is the one
  of the logging statement.\<close>

definition instruction_step :: "runtime \<Rightarrow> string \<Rightarrow> pyval \<Rightarrow> fault + pyval option" where
  "instruction_step rt tweet_id instruction =
     and_then (py_get instruction ''type'' (PStr ''unknown'')) (\<lambda>logged_type.
     and_then (py_get instruction ''type'' PNone) (\<lambda>instruction_type.
       if instruction_type = PStr ''TimelineAddEntries'' then
         and_then (py_get instruction ''entries'' (PList [])) (\<lambda>entries.
         and_then (py_len entries) (\<lambda>logged_len.
         and_then (py_iter entries) (\<lambda>items.
           entries_loop rt tweet_id items)))
       else Inr None))"

fun instructions_loop :: "runtime \<Rightarrow> string \<Rightarrow> pyval list \<Rightarrow> fault + pyval option" where
  "instructions_loop rt tweet_id [] = Inr None"
| "instructions_loop rt tweet_id (instruction # rest) =
     (case instruction_step rt tweet_id instruction of
        Inl f \<Rightarrow> Inl f
      | Inr (Some result) \<Rightarrow> Inr (Some result)
      | Inr None \<Rightarrow> instructions_loop rt tweet_id rest)"

definition raw_response_body :: "runtime \<Rightarrow> pyval \<Rightarrow> string \<Rightarrow> fault + pyval option" where
  "raw_response_body rt raw_data tweet_id =
     and_then (py_keys raw_data) (\<lambda>logged_keys.
     and_then (py_get raw_data ''data'' (PDict [])) (\<lambda>data.
     and_then (py_keys data) (\<lambda>logged_data.
     and_then (py_get data ''tweet_detail'' (PDict [])) (\<lambda>tweet_detail.
     and_then (py_keys tweet_detail) (\<lambda>logged_detail.
     and_then (py_get tweet_detail ''instructions'' (PList [])) (\<lambda>instructions.
     and_then (py_len instructions) (\<lambda>logged_len.
     and_then (py_iter instructions) (\<lambda>items.
       instructions_loop rt tweet_id items))))))))"

definition extract_from_raw_response :: "runtime \<Rightarrow> pyval \<Rightarrow> string \<Rightarrow> pyval option" where
  "extract_from_raw_response rt raw_data tweet_id =
     (case raw_response_body rt raw_data tweet_id of
        Inr found \<Rightarrow> found
      | Inl e \<Rightarrow> None)"

subsection \<open>extract\_twitter\_content\<close>

text \<open>
  The function from the point where the identifier is known (twscrape is available and
  the URL gave \<open>tweet_id\<close>; \<open>_check_accounts\<close> only logs). Nothing below the guards can
  raise: the three methods, the diagnosis and the two parsers catch every exception
  themselves, so the outer handler is not reached. The default list of
  \<open>diagnosis.get("suggestions", ...)\<close> is never taken, the key being always there.
\<close>

definition diagnosis_dict :: "diagnosis \<Rightarrow> pyval" where
  "diagnosis_dict d = PDict (dict_literal
     [(''tweet_id'', PStr (diag_tweet_id d)),
      (''accessible'', PBool (accessible d)),
      (''reasons'', PList (map PStr (reasons d))),
      (''suggestions'', PList (map PStr (suggestions d)))])"

definition not_found :: "string \<Rightarrow> diagnosis \<Rightarrow> pyval" where
  "not_found tweet_id d = PDict (dict_literal
     [(''success'', PBool False),
      (''error'', PStr (''Could not find tweet with ID: '' @ tweet_id)),
      (''title'', PStr ''Twitter/X Post''),
      (''extracted_content'', PStr ''Failed to extract: Tweet not found or inaccessible''),
      (''diagnosis'', diagnosis_dict d),
      (''suggestions'', PList (map PStr (suggestions d)))])"

definition extraction_failed :: pyval where
  "extraction_failed = PDict (dict_literal
     [(''success'', PBool False),
      (''error'', PStr ''Could not extract content from tweet data''),
      (''title'', PStr ''Twitter/X Post''),
      (''extracted_content'', PStr ''Failed to extract: Content extraction failed'')])"

text \<open>The last statements, \<open>if not content: return {...}\<close> and \<open>return content\<close>.\<close>

definition content_or_failure :: "pyval option \<Rightarrow> pyval" where
  "content_or_failure content =
     (case content of
        None \<Rightarrow> extraction_failed
      | Some result \<Rightarrow> if \<not> truthy result then extraction_failed else result)"

definition extract_twitter_content ::
    "runtime \<Rightarrow> extractor_api \<Rightarrow> call list \<Rightarrow> string \<Rightarrow> pyval \<times> call list" where
  "extract_twitter_content rt api calls tweet_id =
     (let (tweet_data1, calls1) = try_tweet_details api calls tweet_id;
          method_used1 = (if truthy tweet_data1 then Some ''tweet_details'' else None);
          (tweet_data2, method_used2, calls2) =
            (if \<not> truthy tweet_data1 then
               (let (found, calls') = try_search_method api calls1 tweet_id
                in (found, if truthy found then Some ''search'' else method_used1, calls'))
             else (tweet_data1, method_used1, calls1));
          (tweet_data3, method_used3, calls3) =
            (if \<not> truthy tweet_data2 then
               (let (found, calls') = try_raw_request api calls2 tweet_id
                in (found, if truthy found then Some ''raw_graphql'' else method_used2, calls'))
             else (tweet_data2, method_used2, calls2))
      in if \<not> truthy tweet_data3 then
           (let (d, calls4) = diagnose_tweet_accessibility rt api calls3 tweet_id
            in (not_found tweet_id d, calls4))
         else
           (let content = (if method_used3 = Some ''raw_graphql''
                           then extract_from_raw_response rt tweet_data3 tweet_id
                           else extract_from_tweet_object rt tweet_data3 tweet_id)
            in (content_or_failure content, calls3)))"

section \<open>Measuring a reconstructed thread\<close>

text \<open>
  The number of nodes of a formatted tweet and of everything below it in its
  \<open>replies\<close> list, and of a whole thread dictionary (the root plus every node of its
  \<open>replies\<close> forest). These are not functions of the source: they state what "total
  node count" means for the tree the source builds.
\<close>

function (sequential) thread_nodes :: "pyval \<Rightarrow> nat" where
  "thread_nodes (PDict kvs) =
     1 + (case dict_lookup kvs ''replies'' of
            Some (PList rs) \<Rightarrow> sum_list (map thread_nodes rs)
          | _ \<Rightarrow> 0)"
| "thread_nodes _ = 0"
  by pat_completeness auto
termination
proof (relation "measure size", simp)
  fix kvs y rs x
  assume a: "dict_lookup kvs ''replies'' = Some y" "y = PList rs" "x \<in> set rs"
  have "map_of kvs k = Some v \<Longrightarrow> size v < size_list (size_prod (\<lambda>_. 0) size) kvs" for k v
    by (induction kvs) (auto split: if_splits)
  moreover have "size x < Suc (size_list size rs)"
    using a(3) by (induction rs) auto
  ultimately show "(x, PDict kvs) \<in> measure size"
    using a by (fastforce simp add: dict_lookup_def)
qed

text \<open>The root counts one; a thread without a resolved root has no tree.\<close>

definition tree_node_count :: "pyval \<Rightarrow> nat" where
  "tree_node_count thread =
     (case thread of
        PDict kvs \<Rightarrow>
          (case dict_lookup kvs ''replies'' of
             Some (PList rs) \<Rightarrow> 1 + sum_list (map thread_nodes rs)
           | _ \<Rightarrow> 0)
      | _ \<Rightarrow> 0)"

text \<open>The count the thread dictionary reports.\<close>

definition reported_total :: "pyval \<Rightarrow> pyval option" where
  "reported_total thread = (case thread of PDict kvs \<Rightarrow> dict_lookup kvs ''total_tweets'' | _ \<Rightarrow> None)"

section \<open>Sample clients\<close>

text \<open>
  Concrete tweets and clients on which the theorems below are instantiated.
  \<open>chain_api\<close>: tweet 1 has the reply 2, which has the reply 3. \<open>faulty_api\<close>: tweet 1
  has the replies 2, 3 and 4; fetching the replies of 3 raises, 2 and 4 have one reply each.
\<close>

definition sample_tweet :: "int \<Rightarrow> Tweet" where
  "sample_tweet i = \<lparr>id_tweet = i, rawContent = ''hello'', user = Some \<lparr>id_user = 7, username = ''alice''\<rparr>,
     date = None, likeCount = 1, retweetCount = 0, replyCount = 5, quoteCount = 0,
     inReplyToTweetId = Some None\<rparr>"

definition chain_api :: thread_api where
  "chain_api = \<lparr>api_tweet_details = (\<lambda>calls tid. Inr (Some (sample_tweet 1))),
     api_tweet_replies = (\<lambda>calls tid limit.
        if tid = PStr ''1'' then Inr [sample_tweet 2]
        else if tid = PInt 2 then Inr [sample_tweet 3] else Inr [])\<rparr>"

definition faulty_api :: thread_api where
  "faulty_api = \<lparr>api_tweet_details = (\<lambda>calls tid. Inr (Some (sample_tweet 1))),
     api_tweet_replies = (\<lambda>calls tid limit.
        if tid = PStr ''1'' then Inr [sample_tweet 2, sample_tweet 3, sample_tweet 4]
        else if tid = PInt 2 then Inr [sample_tweet 5]
        else if tid = PInt 3 then Inl ''rate limit''
        else if tid = PInt 4 then Inr [sample_tweet 6]
        else Inr [])\<rparr>"

section \<open>Fixtures for the extractor\<close>

text \<open>
  One logical post (body text, author handle, the four metrics, and a timestamp where the
  shape carries one) in the two shapes the client delivers: the tweet object answered by
  \<open>tweet_details\<close> and yielded by \<open>search\<close>, and the raw GraphQL document read by
  \<open>_extract_from_raw_response\<close>. These are not functions of the source: they are the
  well-formed inputs on which the parsers are compared.
\<close>

definition tweet_object_fixture ::
    "string \<Rightarrow> string \<Rightarrow> pyval \<Rightarrow> int \<Rightarrow> int \<Rightarrow> int \<Rightarrow> int \<Rightarrow> pyval" where
  "tweet_object_fixture body author posted likes retweets replies quotes =
     PObj [(''rawContent'', PStr body),
           (''user'', PObj [(''username'', PStr author)]),
           (''date'', posted),
           (''likeCount'', PInt likes),
           (''retweetCount'', PInt retweets),
           (''replyCount'', PInt replies),
           (''quoteCount'', PInt quotes)]"

definition tweet_result_fixture ::
    "string \<Rightarrow> string \<Rightarrow> int \<Rightarrow> int \<Rightarrow> int \<Rightarrow> int \<Rightarrow> pyval" where
  "tweet_result_fixture body author likes retweets replies quotes =
     PDict [(''legacy'', PDict [(''full_text'', PStr body),
                               (''favorite_count'', PInt likes),
                               (''retweet_count'', PInt retweets),
                               (''reply_count'', PInt replies),
                               (''quote_count'', PInt quotes)]),
            (''core'', PDict [(''user_results'',
               PDict [(''result'', PDict [(''legacy'', PDict [(''screen_name'', PStr author)])])])])]"

definition instructions_fixture :: "pyval \<Rightarrow> pyval" where
  "instructions_fixture instructions =
     PDict [(''data'', PDict [(''tweet_detail'', PDict [(''instructions'', instructions)])])]"

definition raw_fixture ::
    "string \<Rightarrow> string \<Rightarrow> int \<Rightarrow> int \<Rightarrow> int \<Rightarrow> int \<Rightarrow> pyval" where
  "raw_fixture body author likes retweets replies quotes =
     instructions_fixture (PList
       [PDict [(''type'', PStr ''TimelineAddEntries''),
               (''entries'', PList
                  [PDict [(''content'',
                     PDict [(''entryType'', PStr ''Tweet''),
                            (''itemContent'',
                               PDict [(''tweet_results'',
                                  PDict [(''result'',
                                     tweet_result_fixture body author likes retweets replies
                                       quotes)])])])]])]])"

text \<open>A runtime for the instances: the texts it supplies are not looked at.\<close>

definition sample_runtime :: runtime where
  "sample_runtime = \<lparr>repr_of = (\<lambda>v. ''<value>''), fault_text = (\<lambda>f. ''fault'')\<rparr>"

text \<open>
  Clients whose answers do not depend on the calls made before: \<open>fixed_api d s r\<close>
  answers \<open>d\<close> to \<open>tweet_details\<close>, \<open>s\<close> to \<open>search\<close> and \<open>r\<close> to \<open>tweet_details_raw\<close>.
  \<open>ok_response\<close> is a response with status 200 and the given document.
\<close>

definition fixed_api ::
    "string + pyval \<Rightarrow> string + pyval list \<Rightarrow> string + response option \<Rightarrow> extractor_api" where
  "fixed_api d s r =
     \<lparr>tweet_details = (\<lambda>calls tweet_id. d),
      search = (\<lambda>calls query limit. s),
      tweet_details_raw = (\<lambda>calls tweet_id. r)\<rparr>"

definition ok_response :: "pyval \<Rightarrow> response" where
  "ok_response document = \<lparr>status_code = 200, json = Inr document\<rparr>"

text \<open>\<open>deleted_api\<close>: the tweet is not found by the first two methods, and the raw
  request answers 200 with an empty instruction list.\<close>

definition deleted_api :: extractor_api where
  "deleted_api =
     fixed_api (Inr PNone) (Inr []) (Inr (Some (ok_response (instructions_fixture (PList [])))))"

text \<open>
  \<open>unparseable\<close> is a tweet object the tweet-object parser cannot read (its \<open>rawContent\<close>
  is \<open>None\<close>); \<open>sample_object\<close> and \<open>sample_document\<close> are one post in the two shapes.
\<close>

definition unparseable :: pyval where
  "unparseable = PObj [(''rawContent'', PNone)]"

definition sample_object :: pyval where
  "sample_object = tweet_object_fixture ''hello world'' ''alice'' (PStr ''2024-01-01'') 1 2 3 4"

definition sample_document :: pyval where
  "sample_document = raw_fixture ''hello world'' ''alice'' 1 2 3 4"

text \<open>A result dictionary that reports success.\<close>

definition successful :: "pyval \<Rightarrow> bool" where
  "successful r = (case r of PDict kvs \<Rightarrow> dict_lookup kvs ''success'' = Some (PBool True) | _ \<Rightarrow> False)"

section \<open>What the raw parser is to compute\<close>

text \<open>
  The reading of a raw document that the design describes, written without any
  operation that can raise. \<open>field v key dflt\<close> is the value under \<open>key\<close>, and \<open>dflt\<close>
  when the key is missing; \<open>list_items\<close> are the elements of a list. These are not
  functions of the source: the source's parser is compared with them below.
\<close>

definition field :: "pyval \<Rightarrow> string \<Rightarrow> pyval \<Rightarrow> pyval" where
  "field v key dflt =
     (case v of
        PDict kvs \<Rightarrow> (case map_of kvs key of Some x \<Rightarrow> x | None \<Rightarrow> dflt)
      | _ \<Rightarrow> dflt)"

fun is_dict :: "pyval \<Rightarrow> bool" where
  "is_dict (PDict kvs) = True"
| "is_dict _ = False"

fun is_str :: "pyval \<Rightarrow> bool" where
  "is_str (PStr s) = True"
| "is_str _ = False"

fun is_list :: "pyval \<Rightarrow> bool" where
  "is_list (PList xs) = True"
| "is_list _ = False"

fun list_items :: "pyval \<Rightarrow> pyval list" where
  "list_items (PList xs) = xs"
| "list_items _ = []"

fun str_text :: "pyval \<Rightarrow> string" where
  "str_text (PStr s) = s"
| "str_text _ = []"

text \<open>The tweet result an entry carries, and whether the entry is a post entry.\<close>

definition entry_result :: "pyval \<Rightarrow> pyval" where
  "entry_result entry =
     field (field (field (field entry ''content'' (PDict [])) ''itemContent'' (PDict []))
              ''tweet_results'' (PDict [])) ''result'' (PDict [])"

definition is_tweet_entry :: "pyval \<Rightarrow> bool" where
  "is_tweet_entry entry =
     (field (field entry ''content'' (PDict [])) ''entryType'' (PStr ''unknown'') = PStr ''Tweet'')"

definition is_add_entries :: "pyval \<Rightarrow> bool" where
  "is_add_entries instruction = (field instruction ''type'' PNone = PStr ''TimelineAddEntries'')"

text \<open>The non-empty tweet results of the post entries, in document order: those of one
  list of entries, and those of the whole document.\<close>

definition entries_results :: "pyval list \<Rightarrow> pyval list" where
  "entries_results entries = filter truthy (map entry_result (filter is_tweet_entry entries))"

definition document_instructions :: "pyval \<Rightarrow> pyval list" where
  "document_instructions raw_data =
     list_items (field (field (field raw_data ''data'' (PDict [])) ''tweet_detail'' (PDict []))
                   ''instructions'' (PList []))"

definition document_results :: "pyval \<Rightarrow> pyval list" where
  "document_results raw_data =
     concat (map (\<lambda>instruction.
                    if is_add_entries instruction
                    then entries_results (list_items (field instruction ''entries'' (PList [])))
                    else [])
                 (document_instructions raw_data))"

definition first_of :: "'a list \<Rightarrow> 'a option" where
  "first_of xs = (case xs of [] \<Rightarrow> None | x # rest \<Rightarrow> Some x)"

text \<open>
  The post read from a tweet result, with the documented defaults: the metadata (author
  \<open>Unknown\<close> and metrics 0 where the keys are missing) and the word count of the body
  text (empty where missing). \<open>post_summary\<close> reads the same two items off a result
  dictionary of the parser.
\<close>

definition expected_summary :: "string \<Rightarrow> pyval \<Rightarrow> pyval option \<times> pyval option" where
  "expected_summary tweet_id tweet_content =
     (let legacy = field tweet_content ''legacy'' (PDict []);
          user_legacy =
            field (field (field (field tweet_content ''core'' (PDict []))
                            ''user_results'' (PDict [])) ''result'' (PDict []))
              ''legacy'' (PDict [])
      in (Some (PDict [(''tweet_id'', PStr tweet_id),
                       (''author'', field user_legacy ''screen_name'' (PStr ''Unknown'')),
                       (''likes'', field legacy ''favorite_count'' (PInt 0)),
                       (''retweets'', field legacy ''retweet_count'' (PInt 0)),
                       (''replies'', field legacy ''reply_count'' (PInt 0)),
                       (''quotes'', field legacy ''quote_count'' (PInt 0))]),
          Some (PInt (int (length (py_split (str_text (field legacy ''full_text'' (PStr [])))))))))"

definition post_summary :: "pyval \<Rightarrow> pyval option \<times> pyval option" where
  "post_summary result =
     (case result of
        PDict kvs \<Rightarrow> (dict_lookup kvs ''metadata'', dict_lookup kvs ''word_count'')
      | _ \<Rightarrow> (None, None))"

text \<open>
  A document is well shaped when every key of the path that is present holds a value
  of the kind the path expects (a dict, a list of dicts, a string for the body text);
  any of the keys may be missing.
\<close>

definition result_shape_ok :: "pyval \<Rightarrow> bool" where
  "result_shape_ok tweet_content =
     (let legacy = field tweet_content ''legacy'' (PDict []);
          core = field tweet_content ''core'' (PDict []);
          user_results = field core ''user_results'' (PDict []);
          result = field user_results ''result'' (PDict [])
      in is_dict tweet_content \<and> is_dict legacy
         \<and> is_str (field legacy ''full_text'' (PStr []))
         \<and> is_dict core \<and> is_dict user_results \<and> is_dict result
         \<and> is_dict (field result ''legacy'' (PDict [])))"

definition entry_shape_ok :: "pyval \<Rightarrow> bool" where
  "entry_shape_ok entry =
     (let content = field entry ''content'' (PDict []);
          item_content = field content ''itemContent'' (PDict []);
          tweet_results = field item_content ''tweet_results'' (PDict [])
      in is_dict entry \<and> is_dict content \<and> is_dict item_content \<and> is_dict tweet_results
         \<and> result_shape_ok (entry_result entry))"

definition instruction_shape_ok :: "pyval \<Rightarrow> bool" where
  "instruction_shape_ok instruction =
     (is_dict instruction
      \<and> is_list (field instruction ''entries'' (PList []))
      \<and> list_all entry_shape_ok (list_items (field instruction ''entries'' (PList []))))"

definition response_shape_ok :: "pyval \<Rightarrow> bool" where
  "response_shape_ok raw_data =
     (let data = field raw_data ''data'' (PDict []);
          tweet_detail = field data ''tweet_detail'' (PDict []);
          instructions = field tweet_detail ''instructions'' (PList [])
      in is_dict raw_data \<and> is_dict data \<and> is_dict tweet_detail \<and> is_list instructions
         \<and> list_all instruction_shape_ok (list_items instructions))"

text \<open>A document with keys missing at every level; its last entry carries a tweet result
  without \<open>legacy\<close> and without \<open>core\<close>.\<close>

definition sparse_document :: pyval where
  "sparse_document = instructions_fixture (PList
     [PDict [],
      PDict [(''type'', PStr ''TimelineAddEntries'')],
      PDict [(''type'', PStr ''TimelineAddEntries''),
             (''entries'', PList
                [PDict [],
                 PDict [(''content'', PDict [(''entryType'', PStr ''Tweet'')])],
                 PDict [(''content'',
                    PDict [(''entryType'', PStr ''Tweet''),
                           (''itemContent'',
                              PDict [(''tweet_results'',
                                 PDict [(''result'', PDict [(''rest_id'', PStr ''99'')])])])])]])]])"

section \<open>The canonical fields of a result\<close>

text \<open>
  What a result dictionary says about the post: the identifier, the author and the four
  metrics, read off its \<open>metadata\<close>; the word count; and the rendered text. The body
  text has no key of its own: it appears in the rendered text, in the block that starts
  at \<open>Content:\<close>, which \<open>content_block\<close> spells out. These are not functions of the
  source.
\<close>

definition canonical_fields :: "pyval \<Rightarrow> pyval option list" where
  "canonical_fields result =
     (case result of
        PDict kvs \<Rightarrow>
          (case dict_lookup kvs ''metadata'' of
             Some (PDict metadata) \<Rightarrow>
               map (dict_lookup metadata)
                 [''tweet_id'', ''author'', ''likes'', ''retweets'', ''replies'', ''quotes'']
           | _ \<Rightarrow> [])
      | _ \<Rightarrow> [])"

definition result_item :: "string \<Rightarrow> pyval \<Rightarrow> pyval option" where
  "result_item key result = (case result of PDict kvs \<Rightarrow> dict_lookup kvs key | _ \<Rightarrow> None)"

definition content_block :: "string \<Rightarrow> int \<Rightarrow> int \<Rightarrow> int \<Rightarrow> int \<Rightarrow> string" where
  "content_block body likes retweets replies quotes = concat
     [''Content:'', nl,
      body, nl,
      nl,
      ''Engagement:'', nl,
      ''- Likes: '', str_int likes, nl,
      ''- Retweets: '', str_int retweets, nl,
      ''- Replies: '', str_int replies, nl,
      ''- Quotes: '', str_int quotes]"

section \<open>The outcome of a probe, read off the client's answer\<close>

text \<open>
  Whether an answer of \<open>tweet_details\<close> or of \<open>search\<close> proves the tweet accessible,
  and the reason to be recorded when it does not. These are not functions of the
  source: they name the cases in which the diagnosis is stated below.
\<close>

definition details_found :: "string + pyval \<Rightarrow> bool" where
  "details_found answer = (case answer of Inr tweet \<Rightarrow> truthy tweet | Inl e \<Rightarrow> False)"

definition details_failure :: "string + pyval \<Rightarrow> string" where
  "details_failure answer =
     (case answer of
        Inr tweet \<Rightarrow> ''tweet_details returned None''
      | Inl e \<Rightarrow> ''tweet_details failed: '' @ e)"

definition search_found :: "string + pyval list \<Rightarrow> bool" where
  "search_found answer = (case answer of Inr (item # others) \<Rightarrow> True | _ \<Rightarrow> False)"

definition search_failure :: "string + pyval list \<Rightarrow> string" where
  "search_failure answer =
     (case answer of
        Inr items \<Rightarrow> ''search returned no results''
      | Inl e \<Rightarrow> ''search failed: '' @ e)"

section \<open>Properties of the thread reconstruction\<close>

text \<open>The dict display of \<open>_format_tweet\<close>, with its duplicate key resolved.\<close>

lemma format_tweet_items:
  "format_tweet tweet =
     [(''id'', PInt (id_tweet tweet)),
      (''content'', PStr (rawContent tweet)),
      (''author'', (case user tweet of Some u \<Rightarrow> PStr (username u) | None \<Rightarrow> PStr ''Unknown'')),
      (''author_id'', (case user tweet of Some u \<Rightarrow> PInt (id_user u) | None \<Rightarrow> PNone)),
      (''date'', (case date tweet of Some d \<Rightarrow> PStr d | None \<Rightarrow> PNone)),
      (''likes'', PInt (likeCount tweet)),
      (''retweets'', PInt (retweetCount tweet)),
      (''replies'', PList []),
      (''quotes'', PInt (quoteCount tweet)),
      (''is_reply'', (case inReplyToTweetId tweet of
                        None \<Rightarrow> PBool False
                      | Some None \<Rightarrow> PNone
                      | Some (Some i) \<Rightarrow> PInt i))]"
  by (simp add: format_tweet_def dict_literal_def)

text \<open>
  C10. For every tweet, the dictionary built by \<open>_format_tweet\<close> holds the empty list
  under \<open>replies\<close>: the reply count written under the same key earlier in the display
  is overwritten, and the dictionary does not depend on the tweet's reply count at all.
\<close>

theorem format_tweet_replies_empty:
  "dict_lookup (format_tweet tweet) ''replies'' = Some (PList [])
   \<and> format_tweet (tweet\<lparr>replyCount := n\<rparr>) = format_tweet tweet"
  by (simp add: format_tweet_items dict_lookup_def)

lemma replies_loop_append:
  "replies_loop api calls (xs @ ys) depth max_depth =
     (case replies_loop api calls xs depth max_depth of
        (ns1, calls1) \<Rightarrow>
          (case replies_loop api calls1 ys depth max_depth of
             (ns2, calls2) \<Rightarrow> (ns1 @ ns2, calls2)))"
  by (induction xs arbitrary: calls) (auto split: prod.splits)

lemma replies_loop_at_bound:
  "max_depth \<le> depth + 1 \<Longrightarrow>
   replies_loop api calls rs depth max_depth =
     (map (\<lambda>r. PDict (dict_set ''replies'' (PList []) (format_tweet r))) rs, calls)"
  by (induction rs) auto

lemma thread_literal:
  "dict_literal
     [(''original_tweet'', PNone), (''replies'', PList []), (''total_tweets'', PInt 0),
      (''max_depth'', PInt max_depth), (''error'', PNone)] =
     [(''original_tweet'', PNone), (''replies'', PList []), (''total_tweets'', PInt 0),
      (''max_depth'', PInt max_depth), (''error'', PNone)]"
  by (simp add: dict_literal_def)

lemma get_complete_thread_resolved:
  assumes "api_tweet_details api calls (PStr tid) = Inr (Some original)"
    and "get_replies_recursive api (calls @ [TweetDetails (PStr tid)]) (PStr tid) 0 max_depth = (replies, calls2)"
  shows "get_complete_thread api calls tid max_depth =
     (PDict [(''original_tweet'', PDict (format_tweet original)),
             (''replies'', PList replies),
             (''total_tweets'', PInt (1 + int (length replies))),
             (''max_depth'', PInt max_depth),
             (''error'', PNone)], calls2)"
  using assms by (simp add: get_complete_thread_def thread_literal del: get_replies_recursive.simps)

text \<open>
  C4. The depth bound is checked before any reply fetch. A node whose depth has reached
  \<open>max_depth\<close> gets the empty child list and the call log is unchanged (no fetch); the
  replies fetched at the last level all get empty child lists without a fetch; and with
  \<open>max_depth = 0\<close> a resolved root comes back with zero children, the total 1, and a log
  holding the root lookup only.
\<close>

theorem depth_bound_before_fetch:
  "(max_depth \<le> depth \<longrightarrow>
      get_replies_recursive api calls tweet_id depth max_depth = ([], calls))
   \<and> (max_depth \<le> depth + 1 \<longrightarrow>
      replies_loop api calls rs depth max_depth =
        (map (\<lambda>r. PDict (dict_set ''replies'' (PList []) (format_tweet r))) rs, calls))
   \<and> (api_tweet_details api calls (PStr tid) = Inr (Some original) \<longrightarrow>
      get_complete_thread api calls tid 0 =
        (PDict [(''original_tweet'', PDict (format_tweet original)),
                (''replies'', PList []),
                (''total_tweets'', PInt 1),
                (''max_depth'', PInt 0),
                (''error'', PNone)],
         calls @ [TweetDetails (PStr tid)]))"
proof (intro conjI impI)
  assume "max_depth \<le> depth"
  then show "get_replies_recursive api calls tweet_id depth max_depth = ([], calls)"
    by simp
next
  assume "max_depth \<le> depth + 1"
  then show "replies_loop api calls rs depth max_depth =
        (map (\<lambda>r. PDict (dict_set ''replies'' (PList []) (format_tweet r))) rs, calls)"
    by (rule replies_loop_at_bound)
next
  assume r: "api_tweet_details api calls (PStr tid) = Inr (Some original)"
  have "get_replies_recursive api (calls @ [TweetDetails (PStr tid)]) (PStr tid) 0 0
          = ([], calls @ [TweetDetails (PStr tid)])"
    by simp
  from get_complete_thread_resolved[OF r this]
  show "get_complete_thread api calls tid 0 =
        (PDict [(''original_tweet'', PDict (format_tweet original)),
                (''replies'', PList []),
                (''total_tweets'', PInt 1),
                (''max_depth'', PInt 0),
                (''error'', PNone)],
         calls @ [TweetDetails (PStr tid)])"
    by simp
qed

theorem depth_bound_before_fetch_witness:
  "get_replies_recursive chain_api [] (PInt 2) 1 1 = ([], [])
   \<and> replies_loop chain_api [] [sample_tweet 2] 0 1 =
        ([PDict (dict_set ''replies'' (PList []) (format_tweet (sample_tweet 2)))], [])
   \<and> api_tweet_details chain_api [] (PStr ''1'') = Inr (Some (sample_tweet 1))
   \<and> api_tweet_replies chain_api [TweetDetails (PStr ''1'')] (PStr ''1'') 20 = Inr [sample_tweet 2]
   \<and> get_complete_thread chain_api [] ''1'' 0 =
        (PDict [(''original_tweet'', PDict (format_tweet (sample_tweet 1))),
                (''replies'', PList []),
                (''total_tweets'', PInt 1),
                (''max_depth'', PInt 0),
                (''error'', PNone)],
         [TweetDetails (PStr ''1'')])"
  using depth_bound_before_fetch [of 1 1 chain_api "[]" "PInt 2" "[sample_tweet 2]" "''1''" "sample_tweet 1"]
    depth_bound_before_fetch [of 1 0 chain_api "[]" "PInt 2" "[sample_tweet 2]" "''1''" "sample_tweet 1"]
  by (simp add: chain_api_def)

text \<open>
  C5. Let a node's fetched replies be \<open>pre @ r # suf\<close>, and let the reply fetch for \<open>r\<close>
  raise. Then \<open>r\<close> gets the empty child list, after a single client call; the parent's
  child list is still complete: the nodes built for the siblings before \<open>r\<close>, the node
  of \<open>r\<close>, and the nodes built for the siblings after it; and when the parent is the
  root, the thread is returned with the root populated and no error.
\<close>

theorem fetch_error_isolated:
  assumes "depth + 1 < max_depth"
    and "api_tweet_replies api calls tweet_id 20 = Inr (pre @ r # suf)"
    and "replies_loop api (calls @ [TweetReplies tweet_id 20]) pre depth max_depth = (ns_pre, calls1)"
    and "api_tweet_replies api calls1 (PInt (id_tweet r)) 20 = Inl e"
    and "replies_loop api (calls1 @ [TweetReplies (PInt (id_tweet r)) 20]) suf depth max_depth
           = (ns_suf, calls2)"
  shows "get_replies_recursive api calls1 (PInt (id_tweet r)) (depth + 1) max_depth
           = ([], calls1 @ [TweetReplies (PInt (id_tweet r)) 20])
    \<and> get_replies_recursive api calls tweet_id depth max_depth
           = (ns_pre @ PDict (dict_set ''replies'' (PList []) (format_tweet r)) # ns_suf, calls2)
    \<and> (depth = 0 \<and> tweet_id = PStr tid \<and> calls = calls0 @ [TweetDetails (PStr tid)]
        \<and> api_tweet_details api calls0 (PStr tid) = Inr (Some original) \<longrightarrow>
        get_complete_thread api calls0 tid max_depth =
          (PDict [(''original_tweet'', PDict (format_tweet original)),
                  (''replies'',
                   PList (ns_pre @ PDict (dict_set ''replies'' (PList []) (format_tweet r)) # ns_suf)),
                  (''total_tweets'', PInt (1 + int (length pre + 1 + length suf))),
                  (''max_depth'', PInt max_depth),
                  (''error'', PNone)], calls2))"
proof -
  have child: "get_replies_recursive api calls1 (PInt (id_tweet r)) (depth + 1) max_depth
           = ([], calls1 @ [TweetReplies (PInt (id_tweet r)) 20])"
    using assms(1,4) by simp
  have "replies_loop api calls1 (r # suf) depth max_depth =
          (PDict (dict_set ''replies'' (PList []) (format_tweet r)) # ns_suf, calls2)"
    using child assms(5) by (simp del: get_replies_recursive.simps)
  then have loop: "replies_loop api (calls @ [TweetReplies tweet_id 20]) (pre @ r # suf) depth max_depth
      = (ns_pre @ PDict (dict_set ''replies'' (PList []) (format_tweet r)) # ns_suf, calls2)"
    using assms(3) by (simp add: replies_loop_append del: replies_loop.simps)
  have parent: "get_replies_recursive api calls tweet_id depth max_depth
           = (ns_pre @ PDict (dict_set ''replies'' (PList []) (format_tweet r)) # ns_suf, calls2)"
    using assms(1,2) loop by simp
  have len: "\<And>xs c ns c'. replies_loop api c xs depth max_depth = (ns, c') \<Longrightarrow> length ns = length xs"
  proof -
    fix xs c ns c'
    show "replies_loop api c xs depth max_depth = (ns, c') \<Longrightarrow> length ns = length xs"
      by (induction xs arbitrary: c ns c') (auto split: prod.splits simp del: get_replies_recursive.simps)
  qed
  have at_root: "depth = 0 \<and> tweet_id = PStr tid \<and> calls = calls0 @ [TweetDetails (PStr tid)]
        \<and> api_tweet_details api calls0 (PStr tid) = Inr (Some original) \<longrightarrow>
        get_complete_thread api calls0 tid max_depth =
          (PDict [(''original_tweet'', PDict (format_tweet original)),
                  (''replies'',
                   PList (ns_pre @ PDict (dict_set ''replies'' (PList []) (format_tweet r)) # ns_suf)),
                  (''total_tweets'', PInt (1 + int (length pre + 1 + length suf))),
                  (''max_depth'', PInt max_depth),
                  (''error'', PNone)], calls2)"
  proof
    assume h: "depth = 0 \<and> tweet_id = PStr tid \<and> calls = calls0 @ [TweetDetails (PStr tid)]
        \<and> api_tweet_details api calls0 (PStr tid) = Inr (Some original)"
    then have "get_replies_recursive api (calls0 @ [TweetDetails (PStr tid)]) (PStr tid) 0 max_depth
           = (ns_pre @ PDict (dict_set ''replies'' (PList []) (format_tweet r)) # ns_suf, calls2)"
      using parent by simp
    from get_complete_thread_resolved[OF _ this, of original] h
    show "get_complete_thread api calls0 tid max_depth =
          (PDict [(''original_tweet'', PDict (format_tweet original)),
                  (''replies'',
                   PList (ns_pre @ PDict (dict_set ''replies'' (PList []) (format_tweet r)) # ns_suf)),
                  (''total_tweets'', PInt (1 + int (length pre + 1 + length suf))),
                  (''max_depth'', PInt max_depth),
                  (''error'', PNone)], calls2)"
      using len[OF assms(3)] len[OF assms(5)] by simp
  qed
  show ?thesis using child parent at_root by blast
qed

theorem fetch_error_isolated_witness:
  "(0::int) + 1 < 3
   \<and> api_tweet_replies faulty_api [TweetDetails (PStr ''1'')] (PStr ''1'') 20
        = Inr ([sample_tweet 2] @ sample_tweet 3 # [sample_tweet 4])
   \<and> api_tweet_replies faulty_api
         [TweetDetails (PStr ''1''), TweetReplies (PStr ''1'') 20, TweetReplies (PInt 2) 20,
          TweetReplies (PInt 5) 20]
         (PInt (id_tweet (sample_tweet 3))) 20 = Inl ''rate limit''
   \<and> api_tweet_details faulty_api [] (PStr ''1'') = Inr (Some (sample_tweet 1))
   \<and> get_complete_thread faulty_api [] ''1'' 3 =
        (PDict [(''original_tweet'', PDict (format_tweet (sample_tweet 1))),
                (''replies'',
                 PList [PDict (dict_set ''replies''
                          (PList [PDict (dict_set ''replies'' (PList []) (format_tweet (sample_tweet 5)))])
                          (format_tweet (sample_tweet 2))),
                        PDict (dict_set ''replies'' (PList []) (format_tweet (sample_tweet 3))),
                        PDict (dict_set ''replies''
                          (PList [PDict (dict_set ''replies'' (PList []) (format_tweet (sample_tweet 6)))])
                          (format_tweet (sample_tweet 4)))]),
                (''total_tweets'', PInt 4),
                (''max_depth'', PInt 3),
                (''error'', PNone)],
         [TweetDetails (PStr ''1''), TweetReplies (PStr ''1'') 20, TweetReplies (PInt 2) 20,
          TweetReplies (PInt 5) 20, TweetReplies (PInt 3) 20, TweetReplies (PInt 4) 20,
          TweetReplies (PInt 6) 20])"
proof -
  have pre: "replies_loop faulty_api ([TweetDetails (PStr ''1'')] @ [TweetReplies (PStr ''1'') 20])
               [sample_tweet 2] 0 3 =
             ([PDict (dict_set ''replies''
                          (PList [PDict (dict_set ''replies'' (PList []) (format_tweet (sample_tweet 5)))])
                          (format_tweet (sample_tweet 2)))],
              [TweetDetails (PStr ''1''), TweetReplies (PStr ''1'') 20, TweetReplies (PInt 2) 20,
               TweetReplies (PInt 5) 20])"
    by (simp add: faulty_api_def sample_tweet_def)
  have suf: "replies_loop faulty_api
               ([TweetDetails (PStr ''1''), TweetReplies (PStr ''1'') 20, TweetReplies (PInt 2) 20,
                 TweetReplies (PInt 5) 20] @ [TweetReplies (PInt (id_tweet (sample_tweet 3))) 20])
               [sample_tweet 4] 0 3 =
             ([PDict (dict_set ''replies''
                          (PList [PDict (dict_set ''replies'' (PList []) (format_tweet (sample_tweet 6)))])
                          (format_tweet (sample_tweet 4)))],
              [TweetDetails (PStr ''1''), TweetReplies (PStr ''1'') 20, TweetReplies (PInt 2) 20,
               TweetReplies (PInt 5) 20, TweetReplies (PInt 3) 20, TweetReplies (PInt 4) 20,
               TweetReplies (PInt 6) 20])"
    by (simp add: faulty_api_def sample_tweet_def)
  have fetch: "api_tweet_replies faulty_api [TweetDetails (PStr ''1'')] (PStr ''1'') 20
        = Inr ([sample_tweet 2] @ sample_tweet 3 # [sample_tweet 4])"
    by (simp add: faulty_api_def)
  have err: "api_tweet_replies faulty_api
         [TweetDetails (PStr ''1''), TweetReplies (PStr ''1'') 20, TweetReplies (PInt 2) 20,
          TweetReplies (PInt 5) 20]
         (PInt (id_tweet (sample_tweet 3))) 20 = Inl ''rate limit''"
    by (simp add: faulty_api_def sample_tweet_def)
  have root: "api_tweet_details faulty_api [] (PStr ''1'') = Inr (Some (sample_tweet 1))"
    by (simp add: faulty_api_def)
  have bound: "(0::int) + 1 < 3" by simp
  from fetch_error_isolated [OF bound fetch pre err suf, of "''1''" "[]" "sample_tweet 1"] root
  show ?thesis using fetch err by simp
qed

text \<open>When it is the fetch for the root that raises, the thread is the root alone, with
  no error reported.\<close>

lemma root_fetch_error:
  assumes "api_tweet_details api calls (PStr tid) = Inr (Some original)"
    and "0 < max_depth"
    and "api_tweet_replies api (calls @ [TweetDetails (PStr tid)]) (PStr tid) 20 = Inl e"
  shows "get_complete_thread api calls tid max_depth =
     (PDict [(''original_tweet'', PDict (format_tweet original)),
             (''replies'', PList []),
             (''total_tweets'', PInt 1),
             (''max_depth'', PInt max_depth),
             (''error'', PNone)],
      calls @ [TweetDetails (PStr tid), TweetReplies (PStr tid) 20])"
proof -
  have "get_replies_recursive api (calls @ [TweetDetails (PStr tid)]) (PStr tid) 0 max_depth
          = ([], calls @ [TweetDetails (PStr tid), TweetReplies (PStr tid) 20])"
    using assms(2,3) by simp
  from get_complete_thread_resolved[OF assms(1) this] show ?thesis by simp
qed

text \<open>
  C1. The reported total is one plus the number of the root's direct replies. On the
  client \<open>chain_api\<close> with \<open>max_depth = 2\<close> the tree has three nodes (1, its reply 2,
  and 3, the reply to 2) and the reported total is 2.
\<close>

theorem total_tweets_misses_nested_replies:
  "reported_total (fst (get_complete_thread chain_api [] ''1'' 2)) = Some (PInt 2)
   \<and> tree_node_count (fst (get_complete_thread chain_api [] ''1'' 2)) = 3"
  by (simp add: get_complete_thread_def chain_api_def thread_literal format_tweet_items
        reported_total_def tree_node_count_def dict_lookup_def sample_tweet_def)

text \<open>In general the reported total counts the top level of the forest only.\<close>

lemma total_tweets_is_top_level:
  "api_tweet_details api calls (PStr tid) = Inr (Some original) \<Longrightarrow>
   reported_total (fst (get_complete_thread api calls tid max_depth)) =
     Some (PInt (1 + int (length (fst (get_replies_recursive api (calls @ [TweetDetails (PStr tid)]) (PStr tid) 0 max_depth)))))"
  using get_complete_thread_resolved[of api calls tid original max_depth]
  by (cases "get_replies_recursive api (calls @ [TweetDetails (PStr tid)]) (PStr tid) 0 max_depth")
     (simp add: reported_total_def dict_lookup_def del: get_replies_recursive.simps)

section \<open>Properties of the diagnosis\<close>

lemma add_reason_simps [simp]:
  "reasons (add_reason r d) = reasons d @ [r]"
  "accessible (add_reason r d) = accessible d"
  "suggestions (add_reason r d) = suggestions d"
  "diag_tweet_id (add_reason r d) = diag_tweet_id d"
  by (simp_all add: add_reason_def)

lemma add_suggestion_simps [simp]:
  "reasons (add_suggestion s d) = reasons d"
  "accessible (add_suggestion s d) = accessible d"
  "suggestions (add_suggestion s d) = suggestions d @ [s]"
  "diag_tweet_id (add_suggestion s d) = diag_tweet_id d"
  by (simp_all add: add_suggestion_def)

lemma raw_request_body_reasons:
  "raw_request_body api calls tweet_id d = Inr d' \<Longrightarrow>
   length (reasons d') = Suc (length (reasons d)) \<and> accessible d' = accessible d"
  unfolding raw_request_body_def and_then_def lift_raised_def lift_fault_def
  by (auto split: sum.splits option.splits if_splits)

lemma test_raw_request_reasons:
  "length (reasons (test_raw_request rt api calls tweet_id d)) = Suc (length (reasons d))
   \<and> accessible (test_raw_request rt api calls tweet_id d) = accessible d"
  using raw_request_body_reasons[of api calls tweet_id d]
  by (auto simp: test_raw_request_def split: sum.splits)

lemma common_suggestions_keeps [simp]:
  "reasons (common_suggestions d) = reasons d"
  "accessible (common_suggestions d) = accessible d"
  by (simp_all add: common_suggestions_def Let_def)

lemma test_tweet_details_cases:
  "(test_tweet_details api calls tweet_id d = Inl d' \<longrightarrow>
      length (reasons d') = Suc (length (reasons d)) \<and> accessible d')
   \<and> (test_tweet_details api calls tweet_id d = Inr d' \<longrightarrow>
      length (reasons d') = Suc (length (reasons d)) \<and> accessible d' = accessible d)"
  by (auto simp: test_tweet_details_def split: sum.splits if_splits)

lemma test_search_cases:
  "(test_search api calls tweet_id d = Inl d' \<longrightarrow>
      length (reasons d') = Suc (length (reasons d)) \<and> accessible d')
   \<and> (test_search api calls tweet_id d = Inr d' \<longrightarrow>
      length (reasons d') = Suc (length (reasons d)) \<and> accessible d' = accessible d)"
  by (auto simp: test_search_def Let_def split: sum.splits if_splits)

text \<open>The number of reasons is the number of probes run, and tells whether the
  diagnosis found the tweet accessible.\<close>

lemma diagnosis_reason_count:
  "snd (diagnose_tweet_accessibility rt api calls tweet_id) =
     calls @ take (length (reasons (fst (diagnose_tweet_accessibility rt api calls tweet_id))))
               [TweetDetails (PStr tweet_id), Search (''id:'' @ tweet_id) 1,
                TweetDetailsRaw (PStr tweet_id)]
   \<and> 1 \<le> length (reasons (fst (diagnose_tweet_accessibility rt api calls tweet_id)))
   \<and> length (reasons (fst (diagnose_tweet_accessibility rt api calls tweet_id))) \<le> 3
   \<and> accessible (fst (diagnose_tweet_accessibility rt api calls tweet_id)) =
       (length (reasons (fst (diagnose_tweet_accessibility rt api calls tweet_id))) < 3)"
proof -
  let ?d0 = "\<lparr>diag_tweet_id = tweet_id, accessible = False, reasons = [], suggestions = []\<rparr>"
  let ?c1 = "calls @ [TweetDetails (PStr tweet_id)]"
  let ?c2 = "?c1 @ [Search (''id:'' @ tweet_id) 1]"
  show ?thesis
  proof (cases "test_tweet_details api calls tweet_id ?d0")
    case (Inl d)
    then show ?thesis
      using test_tweet_details_cases[of api calls tweet_id ?d0 d]
      by (simp add: diagnose_tweet_accessibility_def)
  next
    case d1: (Inr d1)
    show ?thesis
    proof (cases "test_search api ?c1 tweet_id d1")
      case (Inl d)
      then show ?thesis
        using d1 test_tweet_details_cases[of api calls tweet_id ?d0 d1]
          test_search_cases[of api ?c1 tweet_id d1 d]
        by (simp add: diagnose_tweet_accessibility_def)
    next
      case (Inr d2)
      then show ?thesis
        using d1 test_tweet_details_cases[of api calls tweet_id ?d0 d1]
          test_search_cases[of api ?c1 tweet_id d1 d2]
          test_raw_request_reasons[of rt api ?c2 tweet_id d2]
        by (simp add: diagnose_tweet_accessibility_def)
    qed
  qed
qed

lemma py_in_str_sublist: "py_in_str sub s = sublist sub s"
  by (induction s) (auto simp: sublist_Cons_right)

lemma sublist_py_lower: "sublist a b \<Longrightarrow> sublist (py_lower a) (py_lower b)"
proof -
  assume "sublist a b"
  then obtain ps ss where "b = ps @ a @ ss" by (auto simp: sublist_def)
  then have "py_lower b = py_lower ps @ py_lower a @ py_lower ss"
    by (simp add: py_lower_def)
  then show ?thesis unfolding sublist_def by blast
qed

lemma sublist_in_front: "sublist a b \<Longrightarrow> sublist a (p @ b)"
proof -
  assume "sublist a b"
  then obtain ps ss where "b = ps @ a @ ss" by (auto simp: sublist_def)
  then have "p @ b = (p @ ps) @ a @ ss" by simp
  then show ?thesis unfolding sublist_def by blast
qed

lemma sublist_at_back: "sublist a b \<Longrightarrow> sublist a (b @ s)"
proof -
  assume "sublist a b"
  then obtain ps ss where "b = ps @ a @ ss" by (auto simp: sublist_def)
  then have "b @ s = ps @ a @ (ss @ s)" by simp
  then show ?thesis unfolding sublist_def by blast
qed

lemma sublist_py_join: "x \<in> set xs \<Longrightarrow> sublist x (py_join sep xs)"
proof (induction sep xs rule: py_join.induct)
  case (1 sep)
  then show ?case by simp
next
  case (2 sep x')
  then show ?case by simp
next
  case (3 sep x' y ys)
  show ?case
  proof (cases "x = x'")
    case True
    then show ?thesis by simp
  next
    case False
    with 3 have "sublist x (py_join sep (y # ys))" by simp
    then have "sublist x ((x' @ sep) @ py_join sep (y # ys))"
      by (rule sublist_in_front)
    then show ?thesis by simp
  qed
qed

lemma reason_in_text:
  assumes "r \<in> set rs"
  shows "sublist (py_lower (py_repr_str r)) (py_lower (py_str_list rs))"
proof -
  have "sublist (py_repr_str r) (py_join '', '' (map py_repr_str rs))"
    using assms by (intro sublist_py_join) simp
  then have "sublist (py_repr_str r) (py_str_list rs)"
    unfolding py_str_list_def
    by (intro sublist_in_front sublist_at_back)
  then show ?thesis by (rule sublist_py_lower)
qed

lemma no_instructions_text:
  "py_in_str ''deleted''
     (py_lower (py_repr_str ''Tweet detail has no instructions - likely deleted or private''))"
  "py_in_str ''private''
     (py_lower (py_repr_str ''Tweet detail has no instructions - likely deleted or private''))"
  by code_simp+

lemma no_instructions_matches:
  assumes "''Tweet detail has no instructions - likely deleted or private'' \<in> set rs"
  shows "py_in_str ''deleted'' (py_lower (py_str_list rs))"
    and "py_in_str ''private'' (py_lower (py_str_list rs))"
  using reason_in_text[OF assms] no_instructions_text
  unfolding py_in_str_sublist
  by (meson sublist_order.order_trans)+

lemma getitem_contains: "py_getitem v k = Inr x \<Longrightarrow> py_contains v k = Inr True"
proof (cases v)
  case (PDict kvs)
  assume "py_getitem v k = Inr x"
  with PDict have "map_of kvs k = Some x" by (simp split: option.splits)
  then have "(k, x) \<in> set kvs" by (rule map_of_SomeD)
  then have "k \<in> fst ` set kvs" by force
  with PDict show ?thesis by simp
qed simp_all

lemma raw_request_body_no_instructions:
  assumes "tweet_details_raw api calls tweet_id = Inr (Some resp)"
    and "status_code resp = 200"
    and "json resp = Inr data"
    and "py_getitem data ''data'' = Inr inner"
    and "py_getitem inner ''tweet_detail'' = Inr tweet_detail"
    and "py_getitem tweet_detail ''instructions'' = Inr (PList [])"
  shows "raw_request_body api calls tweet_id d =
     Inr (add_suggestion ''This tweet may have been deleted or is from a private account''
            (add_reason ''Tweet detail has no instructions - likely deleted or private'' d))"
  using assms getitem_contains[OF assms(4)] getitem_contains[OF assms(5)]
    getitem_contains[OF assms(6)]
  by (simp add: raw_request_body_def and_then_def lift_raised_def lift_fault_def)

lemma first_tests_no_suggestions:
  "test_tweet_details api calls tweet_id d = Inr d' \<Longrightarrow> suggestions d' = suggestions d"
  "test_search api calls tweet_id d = Inr d' \<Longrightarrow> suggestions d' = suggestions d"
  by (auto simp: test_tweet_details_def test_search_def Let_def split: sum.splits if_splits)

lemma first_tests_not_accessible:
  "test_tweet_details api calls tweet_id d = Inr d' \<Longrightarrow> accessible d' = accessible d"
  "test_search api calls tweet_id d = Inr d' \<Longrightarrow> accessible d' = accessible d"
  by (auto simp: test_tweet_details_def test_search_def Let_def split: sum.splits if_splits)

text \<open>
  C8. Let the first two probes not prove accessibility and let the raw probe answer
  status 200 with a document whose \<open>data.tweet_detail.instructions\<close> is the empty list.
  Then the reason added by the third probe is the "likely deleted or private" one; the
  suggestions are the advice of that branch, then the two suggestions matched on
  "deleted" and "private" (and the rate-limit one if some reason mentions it), then the
  two general suggestions, last.
\<close>

theorem empty_instructions_diagnosed:
  assumes t1: "test_tweet_details api calls tweet_id
                 \<lparr>diag_tweet_id = tweet_id, accessible = False, reasons = [], suggestions = []\<rparr>
               = Inr d1"
    and t2: "test_search api (calls @ [TweetDetails (PStr tweet_id)]) tweet_id d1 = Inr d2"
    and raw: "tweet_details_raw api
                (calls @ [TweetDetails (PStr tweet_id)] @ [Search (''id:'' @ tweet_id) 1]) tweet_id
              = Inr (Some resp)"
    and ok: "status_code resp = 200"
    and js: "json resp = Inr data"
    and g1: "py_getitem data ''data'' = Inr inner"
    and g2: "py_getitem inner ''tweet_detail'' = Inr tweet_detail"
    and g3: "py_getitem tweet_detail ''instructions'' = Inr (PList [])"
  shows "reasons (fst (diagnose_tweet_accessibility rt api calls tweet_id)) =
           reasons d2 @ [''Tweet detail has no instructions - likely deleted or private'']
    \<and> suggestions (fst (diagnose_tweet_accessibility rt api calls tweet_id)) =
         [''This tweet may have been deleted or is from a private account'',
          ''Tweet may have been deleted by the author'',
          ''Tweet may be from a private account'']
         @ (if py_in_str ''rate limit''
                 (py_lower (py_str_list
                    (reasons d2 @ [''Tweet detail has no instructions - likely deleted or private''])))
            then [''Rate limit reached - try again later''] else [])
         @ [''Try testing with a different tweet ID to verify the system works'',
            ''Check if the tweet URL is still accessible in a browser'']
    \<and> \<not> accessible (fst (diagnose_tweet_accessibility rt api calls tweet_id))"
proof -
  let ?A = "''Tweet detail has no instructions - likely deleted or private''"
  let ?d3 = "add_suggestion ''This tweet may have been deleted or is from a private account''
               (add_reason ?A d2)"
  have s2: "suggestions d2 = []" and a2: "\<not> accessible d2"
    using first_tests_no_suggestions(1)[OF t1] first_tests_no_suggestions(2)[OF t2]
      first_tests_not_accessible(1)[OF t1] first_tests_not_accessible(2)[OF t2]
    by simp_all
  have body: "test_raw_request rt api
                (calls @ [TweetDetails (PStr tweet_id)] @ [Search (''id:'' @ tweet_id) 1]) tweet_id d2
              = ?d3"
    using raw_request_body_no_instructions[OF raw ok js g1 g2 g3, of d2]
    by (simp add: test_raw_request_def)
  have run: "fst (diagnose_tweet_accessibility rt api calls tweet_id) = common_suggestions ?d3"
    using t1 t2 body by (simp add: diagnose_tweet_accessibility_def)
  have m: "py_in_str ''deleted'' (py_lower (py_str_list (reasons d2 @ [?A])))"
          "py_in_str ''private'' (py_lower (py_str_list (reasons d2 @ [?A])))"
    by (rule no_instructions_matches, simp)+
  show ?thesis
    unfolding run using m s2 a2 by (simp add: common_suggestions_def Let_def)
qed

lemma no_rate_limit_text:
  "\<not> py_in_str ''rate limit''
       (py_lower (py_str_list
          [''tweet_details returned None'', ''search returned no results'',
           ''Tweet detail has no instructions - likely deleted or private'']))"
  by code_simp

theorem empty_instructions_diagnosed_witness:
  "test_tweet_details deleted_api [] ''99''
      \<lparr>diag_tweet_id = ''99'', accessible = False, reasons = [], suggestions = []\<rparr>
     = Inr \<lparr>diag_tweet_id = ''99'', accessible = False,
            reasons = [''tweet_details returned None''], suggestions = []\<rparr>
   \<and> test_search deleted_api ([] @ [TweetDetails (PStr ''99'')]) ''99''
        \<lparr>diag_tweet_id = ''99'', accessible = False,
         reasons = [''tweet_details returned None''], suggestions = []\<rparr>
     = Inr \<lparr>diag_tweet_id = ''99'', accessible = False,
            reasons = [''tweet_details returned None'', ''search returned no results''],
            suggestions = []\<rparr>
   \<and> tweet_details_raw deleted_api
        ([] @ [TweetDetails (PStr ''99'')] @ [Search (''id:'' @ ''99'') 1]) ''99''
     = Inr (Some (ok_response (instructions_fixture (PList []))))
   \<and> py_getitem (instructions_fixture (PList [])) ''data''
     = Inr (PDict [(''tweet_detail'', PDict [(''instructions'', PList [])])])
   \<and> py_getitem (PDict [(''tweet_detail'', PDict [(''instructions'', PList [])])]) ''tweet_detail''
     = Inr (PDict [(''instructions'', PList [])])
   \<and> py_getitem (PDict [(''instructions'', PList [])]) ''instructions'' = Inr (PList [])
   \<and> reasons (fst (diagnose_tweet_accessibility sample_runtime deleted_api [] ''99'')) =
        [''tweet_details returned None'', ''search returned no results'',
         ''Tweet detail has no instructions - likely deleted or private'']
   \<and> suggestions (fst (diagnose_tweet_accessibility sample_runtime deleted_api [] ''99'')) =
        [''This tweet may have been deleted or is from a private account'',
         ''Tweet may have been deleted by the author'',
         ''Tweet may be from a private account'',
         ''Try testing with a different tweet ID to verify the system works'',
         ''Check if the tweet URL is still accessible in a browser'']
   \<and> \<not> accessible (fst (diagnose_tweet_accessibility sample_runtime deleted_api [] ''99''))"
proof -
  let ?d1 = "\<lparr>diag_tweet_id = ''99'', accessible = False,
            reasons = [''tweet_details returned None''], suggestions = []\<rparr>"
  let ?d2 = "\<lparr>diag_tweet_id = ''99'', accessible = False,
            reasons = [''tweet_details returned None'', ''search returned no results''],
            suggestions = []\<rparr>"
  let ?resp = "ok_response (instructions_fixture (PList []))"
  have t1: "test_tweet_details deleted_api [] ''99''
      \<lparr>diag_tweet_id = ''99'', accessible = False, reasons = [], suggestions = []\<rparr> = Inr ?d1"
    by (simp add: test_tweet_details_def deleted_api_def fixed_api_def add_reason_def)
  have t2: "test_search deleted_api ([] @ [TweetDetails (PStr ''99'')]) ''99'' ?d1 = Inr ?d2"
    by (simp add: test_search_def deleted_api_def fixed_api_def add_reason_def)
  have raw: "tweet_details_raw deleted_api
        ([] @ [TweetDetails (PStr ''99'')] @ [Search (''id:'' @ ''99'') 1]) ''99'' = Inr (Some ?resp)"
    by (simp add: deleted_api_def fixed_api_def)
  have ok: "status_code ?resp = 200" and js: "json ?resp = Inr (instructions_fixture (PList []))"
    by (simp_all add: ok_response_def)
  have g1: "py_getitem (instructions_fixture (PList [])) ''data''
     = Inr (PDict [(''tweet_detail'', PDict [(''instructions'', PList [])])])"
    by (simp add: instructions_fixture_def)
  have g2: "py_getitem (PDict [(''tweet_detail'', PDict [(''instructions'', PList [])])]) ''tweet_detail''
     = Inr (PDict [(''instructions'', PList [])])"
    by simp
  have g3: "py_getitem (PDict [(''instructions'', PList [])]) ''instructions'' = Inr (PList [])"
    by simp
  from empty_instructions_diagnosed [OF t1 t2 raw ok js g1 g2 g3, of sample_runtime]
  show ?thesis
    using t1 t2 raw g1 g2 g3 no_rate_limit_text by simp
qed

section \<open>Properties of the strategy chain\<close>

text \<open>The chain, case by case: which method is the first to answer a true value.\<close>

lemma try_logs [simp]:
  "snd (try_tweet_details api calls tweet_id) = calls @ [TweetDetails (PStr tweet_id)]"
  "snd (try_search_method api calls tweet_id) = calls @ [Search (''id:'' @ tweet_id) 1]"
  "snd (try_raw_request api calls tweet_id) = calls @ [TweetDetailsRaw (PStr tweet_id)]"
  by (simp_all add: try_tweet_details_def try_search_method_def try_raw_request_def)

lemma extract_first:
  "truthy (fst (try_tweet_details api calls tweet_id)) \<Longrightarrow>
   extract_twitter_content rt api calls tweet_id =
     (content_or_failure
        (extract_from_tweet_object rt (fst (try_tweet_details api calls tweet_id)) tweet_id),
      calls @ [TweetDetails (PStr tweet_id)])"
  by (simp add: extract_twitter_content_def Let_def case_prod_unfold)

lemma extract_second:
  "\<not> truthy (fst (try_tweet_details api calls tweet_id)) \<Longrightarrow>
   truthy (fst (try_search_method api (calls @ [TweetDetails (PStr tweet_id)]) tweet_id)) \<Longrightarrow>
   extract_twitter_content rt api calls tweet_id =
     (content_or_failure
        (extract_from_tweet_object rt
           (fst (try_search_method api (calls @ [TweetDetails (PStr tweet_id)]) tweet_id)) tweet_id),
      calls @ [TweetDetails (PStr tweet_id), Search (''id:'' @ tweet_id) 1])"
  by (simp add: extract_twitter_content_def Let_def case_prod_unfold)

lemma extract_third:
  "\<not> truthy (fst (try_tweet_details api calls tweet_id)) \<Longrightarrow>
   \<not> truthy (fst (try_search_method api (calls @ [TweetDetails (PStr tweet_id)]) tweet_id)) \<Longrightarrow>
   truthy (fst (try_raw_request api
      (calls @ [TweetDetails (PStr tweet_id), Search (''id:'' @ tweet_id) 1]) tweet_id)) \<Longrightarrow>
   extract_twitter_content rt api calls tweet_id =
     (content_or_failure
        (extract_from_raw_response rt
           (fst (try_raw_request api
              (calls @ [TweetDetails (PStr tweet_id), Search (''id:'' @ tweet_id) 1]) tweet_id))
           tweet_id),
      calls @ [TweetDetails (PStr tweet_id), Search (''id:'' @ tweet_id) 1,
               TweetDetailsRaw (PStr tweet_id)])"
  by (simp add: extract_twitter_content_def Let_def case_prod_unfold)

lemma extract_none:
  "\<not> truthy (fst (try_tweet_details api calls tweet_id)) \<Longrightarrow>
   \<not> truthy (fst (try_search_method api (calls @ [TweetDetails (PStr tweet_id)]) tweet_id)) \<Longrightarrow>
   \<not> truthy (fst (try_raw_request api
      (calls @ [TweetDetails (PStr tweet_id), Search (''id:'' @ tweet_id) 1]) tweet_id)) \<Longrightarrow>
   extract_twitter_content rt api calls tweet_id =
     (not_found tweet_id
        (fst (diagnose_tweet_accessibility rt api
           (calls @ [TweetDetails (PStr tweet_id), Search (''id:'' @ tweet_id) 1,
                     TweetDetailsRaw (PStr tweet_id)]) tweet_id)),
      snd (diagnose_tweet_accessibility rt api
           (calls @ [TweetDetails (PStr tweet_id), Search (''id:'' @ tweet_id) 1,
                     TweetDetailsRaw (PStr tweet_id)]) tweet_id))"
  by (simp add: extract_twitter_content_def Let_def case_prod_unfold)

lemma and_then_InrE:
  assumes "and_then r f = Inr y"
  obtains x where "r = Inr x" and "f x = Inr y"
  using assms by (cases r) (simp_all add: and_then_def)

lemma and_then_Inr [simp]: "and_then (Inr x) f = f x"
  by (simp add: and_then_def)

lemma and_then_Inl [simp]: "and_then (Inl e) f = Inl e"
  by (simp add: and_then_def)

lemma tweet_object_body_successful:
  "tweet_object_body rt tweet_data tweet_id = Inr r \<Longrightarrow> successful r"
  unfolding tweet_object_body_def Let_def
  by (elim and_then_InrE) (auto simp: successful_def dict_literal_def dict_lookup_def)

lemma tweet_entry_successful:
  "tweet_entry rt tweet_id entry = Inr (Some r) \<Longrightarrow> successful r"
  unfolding tweet_entry_def Let_def
  apply (elim and_then_InrE)
  apply (simp split: if_splits)
  apply (elim and_then_InrE)
  apply (simp split: if_splits)
  apply (elim and_then_InrE)
  apply (auto simp: successful_def dict_literal_def dict_lookup_def)
  done

lemma entries_loop_successful:
  "entries_loop rt tweet_id entries = Inr (Some r) \<Longrightarrow> successful r"
  by (induction entries) (auto split: sum.splits option.splits dest: tweet_entry_successful)

lemma instruction_step_successful:
  "instruction_step rt tweet_id instruction = Inr (Some r) \<Longrightarrow> successful r"
  unfolding instruction_step_def
  apply (elim and_then_InrE)
  apply (simp split: if_splits)
  apply (elim and_then_InrE)
  apply (auto dest: entries_loop_successful)
  done

lemma instructions_loop_successful:
  "instructions_loop rt tweet_id instructions = Inr (Some r) \<Longrightarrow> successful r"
  by (induction instructions)
     (auto split: sum.splits option.splits dest: instruction_step_successful)

lemma raw_response_successful:
  "extract_from_raw_response rt raw_data tweet_id = Some r \<Longrightarrow> successful r"
  unfolding extract_from_raw_response_def raw_response_body_def
  apply (simp split: sum.splits)
  apply (elim and_then_InrE)
  apply (auto dest: instructions_loop_successful)
  done

lemma tweet_object_successful:
  "extract_from_tweet_object rt tweet_data tweet_id = Some r \<Longrightarrow> successful r"
  by (auto simp: extract_from_tweet_object_def split: sum.splits dest: tweet_object_body_successful)

lemma not_found_unsuccessful: "\<not> successful (not_found tweet_id d)"
  by (simp add: successful_def not_found_def dict_literal_def dict_lookup_def)

lemma extraction_failed_not_found: "extraction_failed \<noteq> not_found tweet_id d"
  by (simp add: extraction_failed_def not_found_def dict_literal_def)

lemma content_or_failure_not_found:
  "(\<And>r. content = Some r \<Longrightarrow> successful r) \<Longrightarrow> content_or_failure content \<noteq> not_found tweet_id d"
  using not_found_unsuccessful[of tweet_id d] extraction_failed_not_found[of tweet_id d]
  by (auto simp: content_or_failure_def split: option.splits)

text \<open>The sample values: which are true, and which the parsers can read.\<close>

lemma unparseable_object:
  "truthy unparseable" "extract_from_tweet_object rt unparseable tweet_id = None"
  by (simp_all add: unparseable_def extract_from_tweet_object_def tweet_object_body_def)

lemma sample_object_parsed:
  "truthy sample_object" "extract_from_tweet_object rt sample_object tweet_id \<noteq> None"
  by (simp_all add: sample_object_def tweet_object_fixture_def extract_from_tweet_object_def
        tweet_object_body_def Let_def)

lemma sample_document_parsed:
  "truthy sample_document" "extract_from_raw_response rt sample_document tweet_id \<noteq> None"
  by (simp_all add: sample_document_def raw_fixture_def instructions_fixture_def
        tweet_result_fixture_def extract_from_raw_response_def raw_response_body_def
        instruction_step_def tweet_entry_def Let_def)

lemma fixed_api_tries:
  "fst (try_tweet_details (fixed_api (Inr v) s r) calls tweet_id) = (if truthy v then v else PNone)"
  "fst (try_tweet_details (fixed_api (Inl e) s r) calls tweet_id) = PNone"
  "fst (try_search_method (fixed_api d (Inr []) r) calls tweet_id) = PNone"
  "fst (try_search_method (fixed_api d (Inr (v # vs)) r) calls tweet_id) = v"
  "fst (try_search_method (fixed_api d (Inl e) r) calls tweet_id) = PNone"
  "fst (try_raw_request (fixed_api d s (Inr None)) calls tweet_id) = PNone"
  "fst (try_raw_request (fixed_api d s (Inr (Some (ok_response document)))) calls tweet_id) = document"
  "fst (try_raw_request (fixed_api d s (Inl e)) calls tweet_id) = PNone"
  by (simp_all add: try_tweet_details_def try_search_method_def try_raw_request_def
        fixed_api_def ok_response_def)

text \<open>
  C2 (as amended). The chain tries \<open>tweet_details\<close>, the search for \<open>id:\<close>, and the raw
  request, in this order, and stops at the first method that answers a true value;
  the call log shows the methods tried. That value alone goes to the paired parser (the
  raw parser for the third method, the tweet-object parser for the first two), and when
  the parser gives no result the call ends with the content-extraction failure: the
  methods after it are not tried. When no method answers a true value the result is the
  not-found failure carrying the diagnosis.
\<close>

theorem chain_stops_at_first_retrieval:
  "(truthy (fst (try_tweet_details api calls tweet_id)) \<longrightarrow>
      extract_twitter_content rt api calls tweet_id =
        (content_or_failure
           (extract_from_tweet_object rt (fst (try_tweet_details api calls tweet_id)) tweet_id),
         calls @ [TweetDetails (PStr tweet_id)]))
   \<and> (\<not> truthy (fst (try_tweet_details api calls tweet_id))
      \<and> truthy (fst (try_search_method api (calls @ [TweetDetails (PStr tweet_id)]) tweet_id)) \<longrightarrow>
      extract_twitter_content rt api calls tweet_id =
        (content_or_failure
           (extract_from_tweet_object rt
              (fst (try_search_method api (calls @ [TweetDetails (PStr tweet_id)]) tweet_id))
              tweet_id),
         calls @ [TweetDetails (PStr tweet_id), Search (''id:'' @ tweet_id) 1]))
   \<and> (\<not> truthy (fst (try_tweet_details api calls tweet_id))
      \<and> \<not> truthy (fst (try_search_method api (calls @ [TweetDetails (PStr tweet_id)]) tweet_id))
      \<and> truthy (fst (try_raw_request api
            (calls @ [TweetDetails (PStr tweet_id), Search (''id:'' @ tweet_id) 1]) tweet_id)) \<longrightarrow>
      extract_twitter_content rt api calls tweet_id =
        (content_or_failure
           (extract_from_raw_response rt
              (fst (try_raw_request api
                 (calls @ [TweetDetails (PStr tweet_id), Search (''id:'' @ tweet_id) 1]) tweet_id))
              tweet_id),
         calls @ [TweetDetails (PStr tweet_id), Search (''id:'' @ tweet_id) 1,
                  TweetDetailsRaw (PStr tweet_id)]))
   \<and> (\<not> truthy (fst (try_tweet_details api calls tweet_id))
      \<and> \<not> truthy (fst (try_search_method api (calls @ [TweetDetails (PStr tweet_id)]) tweet_id))
      \<and> \<not> truthy (fst (try_raw_request api
            (calls @ [TweetDetails (PStr tweet_id), Search (''id:'' @ tweet_id) 1]) tweet_id)) \<longrightarrow>
      extract_twitter_content rt api calls tweet_id =
        (not_found tweet_id
           (fst (diagnose_tweet_accessibility rt api
              (calls @ [TweetDetails (PStr tweet_id), Search (''id:'' @ tweet_id) 1,
                        TweetDetailsRaw (PStr tweet_id)]) tweet_id)),
         snd (diagnose_tweet_accessibility rt api
              (calls @ [TweetDetails (PStr tweet_id), Search (''id:'' @ tweet_id) 1,
                        TweetDetailsRaw (PStr tweet_id)]) tweet_id)))"
  using extract_first[of api calls tweet_id rt] extract_second[of api calls tweet_id rt]
    extract_third[of api calls tweet_id rt] extract_none[of api calls tweet_id rt]
  by blast

theorem chain_stops_at_first_retrieval_witness:
  "(truthy (fst (try_tweet_details (fixed_api (Inr sample_object) (Inr []) (Inr None)) [] ''99''))
    \<and> extract_twitter_content sample_runtime
         (fixed_api (Inr sample_object) (Inr []) (Inr None)) [] ''99'' =
        (content_or_failure (extract_from_tweet_object sample_runtime sample_object ''99''),
         [TweetDetails (PStr ''99'')]))
   \<and> (\<not> truthy (fst (try_tweet_details
                       (fixed_api (Inr PNone) (Inr [sample_object]) (Inr None)) [] ''99''))
    \<and> truthy (fst (try_search_method (fixed_api (Inr PNone) (Inr [sample_object]) (Inr None))
                     ([] @ [TweetDetails (PStr ''99'')]) ''99''))
    \<and> extract_twitter_content sample_runtime
         (fixed_api (Inr PNone) (Inr [sample_object]) (Inr None)) [] ''99'' =
        (content_or_failure (extract_from_tweet_object sample_runtime sample_object ''99''),
         [TweetDetails (PStr ''99''), Search ''id:99'' 1]))
   \<and> (\<not> truthy (fst (try_tweet_details
                       (fixed_api (Inr PNone) (Inr []) (Inr (Some (ok_response sample_document))))
                       [] ''99''))
    \<and> \<not> truthy (fst (try_search_method
                       (fixed_api (Inr PNone) (Inr []) (Inr (Some (ok_response sample_document))))
                       ([] @ [TweetDetails (PStr ''99'')]) ''99''))
    \<and> truthy (fst (try_raw_request
                     (fixed_api (Inr PNone) (Inr []) (Inr (Some (ok_response sample_document))))
                     ([] @ [TweetDetails (PStr ''99''), Search (''id:'' @ ''99'') 1]) ''99''))
    \<and> extract_twitter_content sample_runtime
         (fixed_api (Inr PNone) (Inr []) (Inr (Some (ok_response sample_document)))) [] ''99'' =
        (content_or_failure (extract_from_raw_response sample_runtime sample_document ''99''),
         [TweetDetails (PStr ''99''), Search ''id:99'' 1, TweetDetailsRaw (PStr ''99'')]))
   \<and> (\<not> truthy (fst (try_tweet_details
                       (fixed_api (Inl ''timeout'') (Inl ''timeout'') (Inl ''timeout'')) [] ''99''))
    \<and> \<not> truthy (fst (try_search_method
                       (fixed_api (Inl ''timeout'') (Inl ''timeout'') (Inl ''timeout''))
                       ([] @ [TweetDetails (PStr ''99'')]) ''99''))
    \<and> \<not> truthy (fst (try_raw_request
                       (fixed_api (Inl ''timeout'') (Inl ''timeout'') (Inl ''timeout''))
                       ([] @ [TweetDetails (PStr ''99''), Search (''id:'' @ ''99'') 1]) ''99''))
    \<and> fst (extract_twitter_content sample_runtime
              (fixed_api (Inl ''timeout'') (Inl ''timeout'') (Inl ''timeout'')) [] ''99'') =
        not_found ''99''
          (fst (diagnose_tweet_accessibility sample_runtime
                  (fixed_api (Inl ''timeout'') (Inl ''timeout'') (Inl ''timeout''))
                  [TweetDetails (PStr ''99''), Search ''id:99'' 1, TweetDetailsRaw (PStr ''99'')]
                  ''99'')))"
  using chain_stops_at_first_retrieval
          [of "fixed_api (Inr sample_object) (Inr []) (Inr None)" "[]" "''99''" sample_runtime]
        chain_stops_at_first_retrieval
          [of "fixed_api (Inr PNone) (Inr [sample_object]) (Inr None)" "[]" "''99''" sample_runtime]
        chain_stops_at_first_retrieval
          [of "fixed_api (Inr PNone) (Inr []) (Inr (Some (ok_response sample_document)))" "[]"
              "''99''" sample_runtime]
        chain_stops_at_first_retrieval
          [of "fixed_api (Inl ''timeout'') (Inl ''timeout'') (Inl ''timeout'')" "[]" "''99''"
              sample_runtime]
        sample_object_parsed(1) sample_document_parsed(1)
  by (simp add: fixed_api_tries)

text \<open>
  C2 as stated fails: on a client whose \<open>tweet_details\<close> answers an object the parser
  cannot read and whose search would yield a readable one, the retrieval of the first
  method succeeds, its parser gives no post, and the call ends in failure after the one
  call: the search is never tried.
\<close>

theorem normalizer_failure_ends_chain:
  "truthy (fst (try_tweet_details
             (fixed_api (Inr unparseable) (Inr [sample_object]) (Inr None)) [] ''99''))
   \<and> extract_from_tweet_object sample_runtime
        (fst (try_tweet_details
               (fixed_api (Inr unparseable) (Inr [sample_object]) (Inr None)) [] ''99'')) ''99''
      = None
   \<and> truthy (fst (try_search_method
                  (fixed_api (Inr unparseable) (Inr [sample_object]) (Inr None))
                  [TweetDetails (PStr ''99'')] ''99''))
   \<and> extract_from_tweet_object sample_runtime
        (fst (try_search_method
               (fixed_api (Inr unparseable) (Inr [sample_object]) (Inr None))
               [TweetDetails (PStr ''99'')] ''99'')) ''99''
      \<noteq> None
   \<and> extract_twitter_content sample_runtime
        (fixed_api (Inr unparseable) (Inr [sample_object]) (Inr None)) [] ''99''
      = (extraction_failed, [TweetDetails (PStr ''99'')])"
proof -
  let ?api = "fixed_api (Inr unparseable) (Inr [sample_object]) (Inr None)"
  have r1: "fst (try_tweet_details ?api [] ''99'') = unparseable"
    by (simp add: try_tweet_details_def fixed_api_def unparseable_object)
  have r2: "fst (try_search_method ?api [TweetDetails (PStr ''99'')] ''99'') = sample_object"
    by (simp add: try_search_method_def fixed_api_def)
  have "extract_twitter_content sample_runtime ?api [] ''99''
          = (extraction_failed, [TweetDetails (PStr ''99'')])"
    using extract_first[of ?api "[]" "''99''" sample_runtime]
    by (simp add: r1 unparseable_object content_or_failure_def)
  then show ?thesis
    using r1 r2 unparseable_object sample_object_parsed by simp
qed

text \<open>What an exception raised by the client does to each method and to the chain.\<close>

lemma raised_gives_none:
  "tweet_details api calls tweet_id = Inl e \<Longrightarrow> fst (try_tweet_details api calls tweet_id) = PNone"
  "search api calls (''id:'' @ tweet_id) 1 = Inl e \<Longrightarrow> fst (try_search_method api calls tweet_id) = PNone"
  "tweet_details_raw api calls tweet_id = Inl e \<Longrightarrow> fst (try_raw_request api calls tweet_id) = PNone"
  by (simp_all add: try_tweet_details_def try_search_method_def try_raw_request_def)

lemma diagnose_log_prefix:
  "prefix calls (snd (diagnose_tweet_accessibility rt api calls tweet_id))"
  by (auto simp: diagnose_tweet_accessibility_def Let_def split: sum.splits)

lemma search_is_tried:
  assumes "\<not> truthy (fst (try_tweet_details api calls tweet_id))"
  shows "prefix (calls @ [TweetDetails (PStr tweet_id), Search (''id:'' @ tweet_id) 1])
           (snd (extract_twitter_content rt api calls tweet_id))"
proof (cases "truthy (fst (try_search_method api (calls @ [TweetDetails (PStr tweet_id)]) tweet_id))")
  case True
  then show ?thesis using extract_second[OF assms True, of rt] by simp
next
  case s: False
  show ?thesis
  proof (cases "truthy (fst (try_raw_request api
      (calls @ [TweetDetails (PStr tweet_id), Search (''id:'' @ tweet_id) 1]) tweet_id))")
    case True
    then show ?thesis using extract_third[OF assms s True, of rt] by (simp add: prefix_def)
  next
    case False
    let ?c3 = "calls @ [TweetDetails (PStr tweet_id), Search (''id:'' @ tweet_id) 1,
                     TweetDetailsRaw (PStr tweet_id)]"
    have p: "prefix (calls @ [TweetDetails (PStr tweet_id), Search (''id:'' @ tweet_id) 1]) ?c3"
      by (simp add: prefix_def)
    have q: "prefix ?c3 (snd (diagnose_tweet_accessibility rt api ?c3 tweet_id))"
      by (rule diagnose_log_prefix)
    have "snd (extract_twitter_content rt api calls tweet_id)
            = snd (diagnose_tweet_accessibility rt api ?c3 tweet_id)"
      using extract_none[OF assms s False, of rt] by simp
    then show ?thesis
      using prefix_order.order_trans[OF p q] by simp
  qed
qed

lemma raw_is_tried:
  assumes "\<not> truthy (fst (try_tweet_details api calls tweet_id))"
    and "\<not> truthy (fst (try_search_method api (calls @ [TweetDetails (PStr tweet_id)]) tweet_id))"
  shows "prefix (calls @ [TweetDetails (PStr tweet_id), Search (''id:'' @ tweet_id) 1,
                          TweetDetailsRaw (PStr tweet_id)])
           (snd (extract_twitter_content rt api calls tweet_id))"
proof (cases "truthy (fst (try_raw_request api
      (calls @ [TweetDetails (PStr tweet_id), Search (''id:'' @ tweet_id) 1]) tweet_id))")
  case True
  then show ?thesis using extract_third[OF assms True, of rt] by simp
next
  case False
  then show ?thesis
    using extract_none[OF assms False, of rt]
      diagnose_log_prefix[of "calls @ [TweetDetails (PStr tweet_id), Search (''id:'' @ tweet_id) 1,
                     TweetDetailsRaw (PStr tweet_id)]" rt api tweet_id]
    by simp
qed

lemma not_found_only_when_exhausted:
  assumes "fst (extract_twitter_content rt api calls tweet_id) = not_found tweet_id d"
  shows "\<not> truthy (fst (try_tweet_details api calls tweet_id))
     \<and> \<not> truthy (fst (try_search_method api (calls @ [TweetDetails (PStr tweet_id)]) tweet_id))
     \<and> \<not> truthy (fst (try_raw_request api
            (calls @ [TweetDetails (PStr tweet_id), Search (''id:'' @ tweet_id) 1]) tweet_id))"
proof -
  have a: "content_or_failure (extract_from_tweet_object rt v tweet_id) \<noteq> not_found tweet_id d" for v
    by (rule content_or_failure_not_found) (rule tweet_object_successful)
  have b: "content_or_failure (extract_from_raw_response rt v tweet_id) \<noteq> not_found tweet_id d" for v
    by (rule content_or_failure_not_found) (rule raw_response_successful)
  show ?thesis
  proof (intro conjI notI)
    assume t: "truthy (fst (try_tweet_details api calls tweet_id))"
    show False using assms a extract_first[OF t, of rt] by simp
  next
    assume t: "truthy (fst (try_search_method api (calls @ [TweetDetails (PStr tweet_id)]) tweet_id))"
    show False
    proof (cases "truthy (fst (try_tweet_details api calls tweet_id))")
      case True
      then show False using assms a extract_first[OF True, of rt] by simp
    next
      case False
      then show False using assms a extract_second[OF False t, of rt] by simp
    qed
  next
    assume t: "truthy (fst (try_raw_request api
            (calls @ [TweetDetails (PStr tweet_id), Search (''id:'' @ tweet_id) 1]) tweet_id))"
    show False
    proof (cases "truthy (fst (try_tweet_details api calls tweet_id))")
      case True
      then show False using assms a extract_first[OF True, of rt] by simp
    next
      case f1: False
      show False
      proof (cases "truthy (fst (try_search_method api
                       (calls @ [TweetDetails (PStr tweet_id)]) tweet_id))")
        case True
        then show False using assms a extract_second[OF f1 True, of rt] by simp
      next
        case False
        then show False using assms b extract_third[OF f1 False t, of rt] by simp
      qed
    qed
  qed
qed

text \<open>
  C6 (as amended). A method whose client call raises answers \<open>None\<close>, with the call
  logged, and no exception leaves it; the chain then goes on to the next method (the
  log of the whole call holds the next method's call); and when the third method raises
  after the first two gave nothing, the result is the not-found failure with its
  diagnosis. The not-found failure is returned only when all three methods were tried
  and none answered a true value.
\<close>

theorem transport_error_is_not_fatal:
  "(tweet_details api calls tweet_id = Inl e \<longrightarrow>
      try_tweet_details api calls tweet_id = (PNone, calls @ [TweetDetails (PStr tweet_id)])
      \<and> prefix (calls @ [TweetDetails (PStr tweet_id), Search (''id:'' @ tweet_id) 1])
            (snd (extract_twitter_content rt api calls tweet_id)))
   \<and> (\<not> truthy (fst (try_tweet_details api calls tweet_id))
      \<and> search api (calls @ [TweetDetails (PStr tweet_id)]) (''id:'' @ tweet_id) 1 = Inl e \<longrightarrow>
      try_search_method api (calls @ [TweetDetails (PStr tweet_id)]) tweet_id =
        (PNone, calls @ [TweetDetails (PStr tweet_id), Search (''id:'' @ tweet_id) 1])
      \<and> prefix (calls @ [TweetDetails (PStr tweet_id), Search (''id:'' @ tweet_id) 1,
                         TweetDetailsRaw (PStr tweet_id)])
            (snd (extract_twitter_content rt api calls tweet_id)))
   \<and> (\<not> truthy (fst (try_tweet_details api calls tweet_id))
      \<and> \<not> truthy (fst (try_search_method api (calls @ [TweetDetails (PStr tweet_id)]) tweet_id))
      \<and> tweet_details_raw api
           (calls @ [TweetDetails (PStr tweet_id), Search (''id:'' @ tweet_id) 1]) tweet_id = Inl e
      \<longrightarrow>
      try_raw_request api
           (calls @ [TweetDetails (PStr tweet_id), Search (''id:'' @ tweet_id) 1]) tweet_id =
        (PNone, calls @ [TweetDetails (PStr tweet_id), Search (''id:'' @ tweet_id) 1,
                         TweetDetailsRaw (PStr tweet_id)])
      \<and> fst (extract_twitter_content rt api calls tweet_id) =
          not_found tweet_id
            (fst (diagnose_tweet_accessibility rt api
               (calls @ [TweetDetails (PStr tweet_id), Search (''id:'' @ tweet_id) 1,
                         TweetDetailsRaw (PStr tweet_id)]) tweet_id)))
   \<and> (fst (extract_twitter_content rt api calls tweet_id) = not_found tweet_id d \<longrightarrow>
      \<not> truthy (fst (try_tweet_details api calls tweet_id))
      \<and> \<not> truthy (fst (try_search_method api (calls @ [TweetDetails (PStr tweet_id)]) tweet_id))
      \<and> \<not> truthy (fst (try_raw_request api
             (calls @ [TweetDetails (PStr tweet_id), Search (''id:'' @ tweet_id) 1]) tweet_id))
      \<and> prefix (calls @ [TweetDetails (PStr tweet_id), Search (''id:'' @ tweet_id) 1,
                         TweetDetailsRaw (PStr tweet_id)])
            (snd (extract_twitter_content rt api calls tweet_id)))"
proof (intro conjI impI)
  assume r: "tweet_details api calls tweet_id = Inl e"
  then show "try_tweet_details api calls tweet_id = (PNone, calls @ [TweetDetails (PStr tweet_id)])"
    by (simp add: try_tweet_details_def)
  have "\<not> truthy (fst (try_tweet_details api calls tweet_id))"
    using raised_gives_none(1)[OF r] by simp
  then show "prefix (calls @ [TweetDetails (PStr tweet_id), Search (''id:'' @ tweet_id) 1])
            (snd (extract_twitter_content rt api calls tweet_id))"
    by (rule search_is_tried)
next
  assume h: "\<not> truthy (fst (try_tweet_details api calls tweet_id))
      \<and> search api (calls @ [TweetDetails (PStr tweet_id)]) (''id:'' @ tweet_id) 1 = Inl e"
  then show "try_search_method api (calls @ [TweetDetails (PStr tweet_id)]) tweet_id =
        (PNone, calls @ [TweetDetails (PStr tweet_id), Search (''id:'' @ tweet_id) 1])"
    by (simp add: try_search_method_def)
  have "\<not> truthy (fst (try_search_method api (calls @ [TweetDetails (PStr tweet_id)]) tweet_id))"
    using h raised_gives_none(2)[of api "calls @ [TweetDetails (PStr tweet_id)]" tweet_id e] by simp
  with h show "prefix (calls @ [TweetDetails (PStr tweet_id), Search (''id:'' @ tweet_id) 1,
                         TweetDetailsRaw (PStr tweet_id)])
            (snd (extract_twitter_content rt api calls tweet_id))"
    by (intro raw_is_tried) simp_all
next
  assume h: "\<not> truthy (fst (try_tweet_details api calls tweet_id))
      \<and> \<not> truthy (fst (try_search_method api (calls @ [TweetDetails (PStr tweet_id)]) tweet_id))
      \<and> tweet_details_raw api
           (calls @ [TweetDetails (PStr tweet_id), Search (''id:'' @ tweet_id) 1]) tweet_id = Inl e"
  then show "try_raw_request api
           (calls @ [TweetDetails (PStr tweet_id), Search (''id:'' @ tweet_id) 1]) tweet_id =
        (PNone, calls @ [TweetDetails (PStr tweet_id), Search (''id:'' @ tweet_id) 1,
                         TweetDetailsRaw (PStr tweet_id)])"
    by (simp add: try_raw_request_def)
  have "\<not> truthy (fst (try_raw_request api
           (calls @ [TweetDetails (PStr tweet_id), Search (''id:'' @ tweet_id) 1]) tweet_id))"
    using h raised_gives_none(3)[of api
            "calls @ [TweetDetails (PStr tweet_id), Search (''id:'' @ tweet_id) 1]" tweet_id e]
    by simp
  with h show "fst (extract_twitter_content rt api calls tweet_id) =
          not_found tweet_id
            (fst (diagnose_tweet_accessibility rt api
               (calls @ [TweetDetails (PStr tweet_id), Search (''id:'' @ tweet_id) 1,
                         TweetDetailsRaw (PStr tweet_id)]) tweet_id))"
    using extract_none[of api calls tweet_id rt] by simp
next
  assume nf: "fst (extract_twitter_content rt api calls tweet_id) = not_found tweet_id d"
  note ex = not_found_only_when_exhausted[OF nf]
  show "\<not> truthy (fst (try_tweet_details api calls tweet_id))"
    using ex by simp
  show "\<not> truthy (fst (try_search_method api (calls @ [TweetDetails (PStr tweet_id)]) tweet_id))"
    using ex by simp
  show "\<not> truthy (fst (try_raw_request api
             (calls @ [TweetDetails (PStr tweet_id), Search (''id:'' @ tweet_id) 1]) tweet_id))"
    using ex by simp
  show "prefix (calls @ [TweetDetails (PStr tweet_id), Search (''id:'' @ tweet_id) 1,
                         TweetDetailsRaw (PStr tweet_id)])
            (snd (extract_twitter_content rt api calls tweet_id))"
    using ex by (intro raw_is_tried) simp_all
qed

theorem transport_error_is_not_fatal_witness:
  "tweet_details (fixed_api (Inl ''timeout'') (Inl ''timeout'') (Inl ''timeout'')) [] ''99''
     = Inl ''timeout''
   \<and> try_tweet_details (fixed_api (Inl ''timeout'') (Inl ''timeout'') (Inl ''timeout'')) [] ''99''
     = (PNone, [TweetDetails (PStr ''99'')])
   \<and> search (fixed_api (Inl ''timeout'') (Inl ''timeout'') (Inl ''timeout''))
        [TweetDetails (PStr ''99'')] ''id:99'' 1 = Inl ''timeout''
   \<and> try_search_method (fixed_api (Inl ''timeout'') (Inl ''timeout'') (Inl ''timeout''))
        [TweetDetails (PStr ''99'')] ''99''
     = (PNone, [TweetDetails (PStr ''99''), Search ''id:99'' 1])
   \<and> tweet_details_raw (fixed_api (Inl ''timeout'') (Inl ''timeout'') (Inl ''timeout''))
        [TweetDetails (PStr ''99''), Search ''id:99'' 1] ''99'' = Inl ''timeout''
   \<and> try_raw_request (fixed_api (Inl ''timeout'') (Inl ''timeout'') (Inl ''timeout''))
        [TweetDetails (PStr ''99''), Search ''id:99'' 1] ''99''
     = (PNone, [TweetDetails (PStr ''99''), Search ''id:99'' 1, TweetDetailsRaw (PStr ''99'')])
   \<and> fst (extract_twitter_content sample_runtime
             (fixed_api (Inl ''timeout'') (Inl ''timeout'') (Inl ''timeout'')) [] ''99'')
     = not_found ''99''
         (fst (diagnose_tweet_accessibility sample_runtime
                 (fixed_api (Inl ''timeout'') (Inl ''timeout'') (Inl ''timeout''))
                 [TweetDetails (PStr ''99''), Search ''id:99'' 1, TweetDetailsRaw (PStr ''99'')]
                 ''99''))
   \<and> prefix [TweetDetails (PStr ''99''), Search ''id:99'' 1, TweetDetailsRaw (PStr ''99'')]
        (snd (extract_twitter_content sample_runtime
                (fixed_api (Inl ''timeout'') (Inl ''timeout'') (Inl ''timeout'')) [] ''99''))"
proof -
  let ?api = "fixed_api (Inl ''timeout'') (Inl ''timeout'') (Inl ''timeout'')"
  let ?d = "fst (diagnose_tweet_accessibility sample_runtime ?api
                 [TweetDetails (PStr ''99''), Search ''id:99'' 1, TweetDetailsRaw (PStr ''99'')]
                 ''99'')"
  have a: "tweet_details ?api [] ''99'' = Inl ''timeout''"
    and b: "search ?api [TweetDetails (PStr ''99'')] ''id:99'' 1 = Inl ''timeout''"
    and c: "tweet_details_raw ?api [TweetDetails (PStr ''99''), Search ''id:99'' 1] ''99''
              = Inl ''timeout''"
    by (simp_all add: fixed_api_def)
  from transport_error_is_not_fatal [of ?api "[]" "''99''" "''timeout''" sample_runtime ?d]
  show ?thesis
    using a b c by (simp add: fixed_api_tries)
qed

text \<open>
  C6 as stated fails in its last part: here \<open>tweet_details\<close> raises, the search yields an
  object the parser cannot read, and the call is reported as failed after two methods,
  although the raw request, never tried, would have given a readable document.
\<close>

theorem transport_error_then_normalizer_failure:
  "tweet_details (fixed_api (Inl ''timeout'') (Inr [unparseable])
                    (Inr (Some (ok_response sample_document)))) [] ''99'' = Inl ''timeout''
   \<and> extract_twitter_content sample_runtime
        (fixed_api (Inl ''timeout'') (Inr [unparseable])
           (Inr (Some (ok_response sample_document)))) [] ''99''
      = (extraction_failed, [TweetDetails (PStr ''99''), Search ''id:99'' 1])
   \<and> truthy (fst (try_raw_request
                  (fixed_api (Inl ''timeout'') (Inr [unparseable])
                     (Inr (Some (ok_response sample_document))))
                  [TweetDetails (PStr ''99''), Search ''id:99'' 1] ''99''))
   \<and> extract_from_raw_response sample_runtime
        (fst (try_raw_request
                (fixed_api (Inl ''timeout'') (Inr [unparseable])
                   (Inr (Some (ok_response sample_document))))
                [TweetDetails (PStr ''99''), Search ''id:99'' 1] ''99'')) ''99'' \<noteq> None"
proof -
  let ?api = "fixed_api (Inl ''timeout'') (Inr [unparseable])
                (Inr (Some (ok_response sample_document)))"
  have "extract_twitter_content sample_runtime ?api [] ''99''
      = (extraction_failed, [TweetDetails (PStr ''99''), Search ''id:99'' 1])"
    using extract_second[of ?api "[]" "''99''" sample_runtime]
    by (simp add: fixed_api_tries unparseable_object content_or_failure_def)
  then show ?thesis
    using sample_document_parsed by (simp add: fixed_api_tries) (simp add: fixed_api_def)
qed

section \<open>Properties of the raw parser\<close>

text \<open>On values of the expected kind the operations do not raise.\<close>

lemma py_get_field: "is_dict v \<Longrightarrow> py_get v key dflt = Inr (field v key dflt)"
  by (cases v) (simp_all add: field_def)

lemma py_keys_dict: "is_dict v \<Longrightarrow> \<exists>ks. py_keys v = Inr ks"
  by (cases v) simp_all

lemma py_len_list: "is_list v \<Longrightarrow> py_len v = Inr (length (list_items v))"
  by (cases v) simp_all

lemma py_iter_list: "is_list v \<Longrightarrow> py_iter v = Inr (list_items v)"
  by (cases v) simp_all

lemma py_slice_str: "is_str v \<Longrightarrow> \<exists>w. py_slice100 v = Inr w"
  by (cases v) simp_all

lemma py_word_count_str: "is_str v \<Longrightarrow> py_word_count v = Inr (length (py_split (str_text v)))"
  by (cases v) simp_all

lemma tweet_entry_shape:
  assumes "entry_shape_ok entry"
  shows "if is_tweet_entry entry \<and> truthy (entry_result entry)
         then \<exists>r. tweet_entry rt tweet_id entry = Inr (Some r)
                  \<and> post_summary r = expected_summary tweet_id (entry_result entry)
         else tweet_entry rt tweet_id entry = Inr None"
proof -
  let ?content = "field entry ''content'' (PDict [])"
  let ?tc = "entry_result entry"
  let ?legacy = "field ?tc ''legacy'' (PDict [])"
  let ?core = "field ?tc ''core'' (PDict [])"
  let ?ur = "field ?core ''user_results'' (PDict [])"
  let ?res = "field ?ur ''result'' (PDict [])"
  let ?ul = "field ?res ''legacy'' (PDict [])"
  let ?text = "field ?legacy ''full_text'' (PStr [])"
  from assms have d: "is_dict entry" "is_dict ?content"
    "is_dict (field ?content ''itemContent'' (PDict []))"
    "is_dict (field (field ?content ''itemContent'' (PDict [])) ''tweet_results'' (PDict []))"
    "is_dict ?tc" "is_dict ?legacy" "is_str ?text" "is_dict ?core" "is_dict ?ur" "is_dict ?res"
    "is_dict ?ul"
    by (simp_all add: entry_shape_ok_def result_shape_ok_def Let_def entry_result_def)
  obtain ks1 where k1: "py_keys ?tc = Inr ks1" using py_keys_dict[OF d(5)] by blast
  obtain ks2 where k2: "py_keys ?legacy = Inr ks2" using py_keys_dict[OF d(6)] by blast
  obtain w where sl: "py_slice100 ?text = Inr w" using py_slice_str[OF d(7)] by blast
  note g = py_get_field[OF d(1)] py_get_field[OF d(2)] py_get_field[OF d(3)] py_get_field[OF d(4)]
    py_get_field[OF d(5)] py_get_field[OF d(6)] py_get_field[OF d(8)] py_get_field[OF d(9)]
    py_get_field[OF d(10)] py_get_field[OF d(11)]
  have tc: "field (field (field ?content ''itemContent'' (PDict [])) ''tweet_results'' (PDict []))
              ''result'' (PDict []) = ?tc"
    by (simp add: entry_result_def)
  show ?thesis
    unfolding tweet_entry_def
    by (simp add: g tc k1 k2 sl py_word_count_str[OF d(7)] is_tweet_entry_def Let_def
          post_summary_def expected_summary_def dict_literal_def dict_lookup_def)
qed

lemma entries_loop_shape:
  assumes "list_all entry_shape_ok entries"
  shows "\<exists>found. entries_loop rt tweet_id entries = Inr found
           \<and> map_option post_summary found
               = map_option (expected_summary tweet_id) (first_of (entries_results entries))"
  using assms
proof (induction entries)
  case Nil
  then show ?case by (simp add: entries_results_def first_of_def)
next
  case (Cons entry rest)
  then have ok: "entry_shape_ok entry" and rest: "list_all entry_shape_ok rest" by simp_all
  show ?case
  proof (cases "is_tweet_entry entry \<and> truthy (entry_result entry)")
    case True
    with tweet_entry_shape[OF ok, of rt tweet_id]
    obtain r where "tweet_entry rt tweet_id entry = Inr (Some r)"
      and "post_summary r = expected_summary tweet_id (entry_result entry)" by auto
    with True show ?thesis by (simp add: entries_results_def first_of_def)
  next
    case False
    with tweet_entry_shape[OF ok, of rt tweet_id]
    have "tweet_entry rt tweet_id entry = Inr None" by auto
    moreover from False have "entries_results (entry # rest) = entries_results rest"
      by (auto simp: entries_results_def)
    ultimately show ?thesis using Cons.IH[OF rest] by simp
  qed
qed

lemma instruction_step_shape:
  assumes "instruction_shape_ok instruction"
  shows "\<exists>found. instruction_step rt tweet_id instruction = Inr found
           \<and> map_option post_summary found
               = map_option (expected_summary tweet_id)
                   (first_of (if is_add_entries instruction
                              then entries_results
                                     (list_items (field instruction ''entries'' (PList [])))
                              else []))"
proof -
  let ?entries = "field instruction ''entries'' (PList [])"
  from assms have d: "is_dict instruction" and l: "is_list ?entries"
    and es: "list_all entry_shape_ok (list_items ?entries)"
    by (simp_all add: instruction_shape_ok_def)
  show ?thesis
  proof (cases "is_add_entries instruction")
    case True
    then have "instruction_step rt tweet_id instruction
                 = entries_loop rt tweet_id (list_items ?entries)"
      by (simp add: instruction_step_def py_get_field[OF d] py_len_list[OF l] py_iter_list[OF l]
            is_add_entries_def)
    with True entries_loop_shape[OF es, of rt tweet_id] show ?thesis by simp
  next
    case False
    then have "instruction_step rt tweet_id instruction = Inr None"
      by (simp add: instruction_step_def py_get_field[OF d] is_add_entries_def)
    with False show ?thesis by (simp add: first_of_def)
  qed
qed

lemma first_of_append:
  "first_of (xs @ ys) = (case first_of xs of Some x \<Rightarrow> Some x | None \<Rightarrow> first_of ys)"
  by (cases xs) (simp_all add: first_of_def)

lemma instructions_loop_shape:
  assumes "list_all instruction_shape_ok instructions"
  shows "\<exists>found. instructions_loop rt tweet_id instructions = Inr found
           \<and> map_option post_summary found
               = map_option (expected_summary tweet_id)
                   (first_of (concat (map (\<lambda>instruction.
                       if is_add_entries instruction
                       then entries_results (list_items (field instruction ''entries'' (PList [])))
                       else []) instructions)))"
  using assms
proof (induction instructions)
  case Nil
  then show ?case by (simp add: first_of_def)
next
  case (Cons instruction rest)
  then have ok: "instruction_shape_ok instruction"
    and rest: "list_all instruction_shape_ok rest" by simp_all
  let ?here = "if is_add_entries instruction
               then entries_results (list_items (field instruction ''entries'' (PList [])))
               else []"
  from instruction_step_shape[OF ok, of rt tweet_id]
  obtain found where st: "instruction_step rt tweet_id instruction = Inr found"
    and su: "map_option post_summary found
               = map_option (expected_summary tweet_id) (first_of ?here)" by blast
  show ?case
  proof (cases found)
    case None
    with su have "first_of ?here = None" by simp
    with st None Cons.IH[OF rest] show ?thesis by (simp add: first_of_append)
  next
    case (Some r)
    with su obtain tc where "first_of ?here = Some tc" by (cases "first_of ?here") auto
    with st Some su show ?thesis by (simp add: first_of_append)
  qed
qed

lemma raw_response_body_shape:
  assumes "response_shape_ok raw_data"
  shows "\<exists>found. raw_response_body rt raw_data tweet_id = Inr found
           \<and> map_option post_summary found
               = map_option (expected_summary tweet_id) (first_of (document_results raw_data))"
proof -
  let ?data = "field raw_data ''data'' (PDict [])"
  let ?detail = "field ?data ''tweet_detail'' (PDict [])"
  let ?instructions = "field ?detail ''instructions'' (PList [])"
  from assms have d: "is_dict raw_data" "is_dict ?data" "is_dict ?detail"
    and l: "is_list ?instructions"
    and all: "list_all instruction_shape_ok (list_items ?instructions)"
    by (simp_all add: response_shape_ok_def Let_def)
  obtain k1 k2 k3 where k: "py_keys raw_data = Inr k1" "py_keys ?data = Inr k2"
      "py_keys ?detail = Inr k3"
    using py_keys_dict[OF d(1)] py_keys_dict[OF d(2)] py_keys_dict[OF d(3)] by blast
  have "raw_response_body rt raw_data tweet_id
          = instructions_loop rt tweet_id (list_items ?instructions)"
    by (simp add: raw_response_body_def k py_get_field[OF d(1)] py_get_field[OF d(2)]
          py_get_field[OF d(3)] py_len_list[OF l] py_iter_list[OF l])
  with instructions_loop_shape[OF all, of rt tweet_id] show ?thesis
    by (simp add: document_results_def document_instructions_def)
qed

text \<open>
  C9. On every value the raw parser answers \<open>None\<close> or a result dictionary that reports
  success: no fault reaches its caller. On every well-shaped document, whichever keys
  are missing, nothing is raised inside the parser at all (its \<open>try\<close> block ends
  normally), the result is the post read from the first non-empty tweet result of a
  post entry, with the default for every missing key (author \<open>Unknown\<close>, metrics 0,
  empty body text), and it is \<open>None\<close> when no entry gives one.
\<close>

theorem raw_parser_tolerates_missing_keys:
  "pred_option successful (extract_from_raw_response rt raw_data tweet_id)
   \<and> (response_shape_ok raw_data \<longrightarrow>
        raw_response_body rt raw_data tweet_id
          = Inr (extract_from_raw_response rt raw_data tweet_id)
        \<and> map_option post_summary (extract_from_raw_response rt raw_data tweet_id)
            = map_option (expected_summary tweet_id) (first_of (document_results raw_data))
        \<and> (document_results raw_data = [] \<longrightarrow>
              extract_from_raw_response rt raw_data tweet_id = None))"
proof (intro conjI impI)
  show "pred_option successful (extract_from_raw_response rt raw_data tweet_id)"
    by (cases "extract_from_raw_response rt raw_data tweet_id")
       (simp_all add: raw_response_successful)
next
  assume ok: "response_shape_ok raw_data"
  from raw_response_body_shape[OF ok, of rt tweet_id]
  obtain found where b: "raw_response_body rt raw_data tweet_id = Inr found"
    and s: "map_option post_summary found
               = map_option (expected_summary tweet_id) (first_of (document_results raw_data))"
    by blast
  then have e: "extract_from_raw_response rt raw_data tweet_id = found"
    by (simp add: extract_from_raw_response_def)
  show "raw_response_body rt raw_data tweet_id
          = Inr (extract_from_raw_response rt raw_data tweet_id)"
    using b e by simp
  show "map_option post_summary (extract_from_raw_response rt raw_data tweet_id)
            = map_option (expected_summary tweet_id) (first_of (document_results raw_data))"
    using s e by simp
  assume "document_results raw_data = []"
  then show "extract_from_raw_response rt raw_data tweet_id = None"
    using s e by (simp add: first_of_def)
qed

lemma sparse_document_shape:
  "response_shape_ok sparse_document"
  "document_results sparse_document = [PDict [(''rest_id'', PStr ''99'')]]"
  by (simp_all add: sparse_document_def instructions_fixture_def response_shape_ok_def
        instruction_shape_ok_def entry_shape_ok_def result_shape_ok_def entry_result_def
        document_results_def document_instructions_def entries_results_def
        is_add_entries_def is_tweet_entry_def field_def Let_def)

lemma empty_document_shape:
  "response_shape_ok (PDict [])" "document_results (PDict []) = []"
  by (simp_all add: response_shape_ok_def document_results_def document_instructions_def
        field_def Let_def)

theorem raw_parser_tolerates_missing_keys_witness:
  "response_shape_ok sparse_document
   \<and> raw_response_body sample_runtime sparse_document ''99''
       = Inr (extract_from_raw_response sample_runtime sparse_document ''99'')
   \<and> map_option post_summary (extract_from_raw_response sample_runtime sparse_document ''99'')
       = Some (Some (PDict [(''tweet_id'', PStr ''99''),
                            (''author'', PStr ''Unknown''),
                            (''likes'', PInt 0),
                            (''retweets'', PInt 0),
                            (''replies'', PInt 0),
                            (''quotes'', PInt 0)]),
               Some (PInt 0))
   \<and> response_shape_ok (PDict [])
   \<and> document_results (PDict []) = []
   \<and> extract_from_raw_response sample_runtime (PDict []) ''99'' = None"
  using raw_parser_tolerates_missing_keys [of sample_runtime sparse_document "''99''"]
    raw_parser_tolerates_missing_keys [of sample_runtime "PDict []" "''99''"]
    sparse_document_shape empty_document_shape
  by (simp add: first_of_def expected_summary_def field_def py_split_def)

section \<open>The parsers on one post in two shapes\<close>

text \<open>The decimal text of an integer ends in a digit, so \<open>strip()\<close> removes exactly the
  first and the last line feed of the two templates.\<close>

lemma digit_not_space: "d < 10 \<Longrightarrow> \<not> py_isspace (digit_char d)"
  by (simp add: py_isspace_def digit_char_def Let_def)

lemma str_nat_end: "str_nat n \<noteq> [] \<and> \<not> py_isspace (last (str_nat n))"
proof (induction n rule: str_nat.induct)
  case (1 n)
  show ?case
  proof (cases "n < 10")
    case True
    then show ?thesis by (simp add: str_nat.simps[of n] digit_not_space)
  next
    case False
    have "n mod 10 < 10" by simp
    then show ?thesis using False by (simp add: str_nat.simps[of n] digit_not_space)
  qed
qed

lemma str_int_end: "str_int i \<noteq> [] \<and> \<not> py_isspace (last (str_int i))"
  using str_nat_end by (simp add: str_int_def)

lemma strip_framed:
  assumes "\<not> py_isspace a" and "s \<noteq> []" and "\<not> py_isspace (last s)"
  shows "py_strip (nl @ a # m @ s @ nl) = a # m @ s"
proof -
  have sp: "py_isspace (CHR 0x0A)" by (simp add: py_isspace_def)
  have front: "dropWhile py_isspace (nl @ a # m @ s @ nl) = a # m @ s @ nl"
    using assms(1) sp by (simp add: nl_def)
  have "rev (a # m @ s @ nl) = CHR 0x0A # rev s @ rev m @ [a]"
    by (simp add: nl_def)
  moreover have "dropWhile py_isspace (rev s @ rev m @ [a]) = rev s @ rev m @ [a]"
  proof -
    from assms(2) obtain x xs where r: "rev s = x # xs" by (cases "rev s") auto
    then have "s = rev xs @ [x]" by (metis rev_rev_ident rev.simps(2))
    then have "\<not> py_isspace x" using assms(3) by simp
    then have "dropWhile py_isspace ((x # xs) @ rev m @ [a]) = (x # xs) @ rev m @ [a]"
      by simp
    then show ?thesis by (simp only: r)
  qed
  ultimately have "dropWhile py_isspace (rev (a # m @ s @ nl)) = rev s @ rev m @ [a]"
    using sp by (simp add: nl_def)
  then show ?thesis unfolding py_strip_def front by simp
qed

lemma strip_with_date:
  assumes "q \<noteq> []" and "\<not> py_isspace (last q)"
  shows "py_strip (concat
             [nl, ''Twitter/X Post by @'', a, nl,
              ''Tweet ID: '', t, nl,
              ''Posted: '', d, nl,
              nl,
              ''Content:'', nl,
              c, nl,
              nl,
              ''Engagement:'', nl,
              ''- Likes: '', l, nl,
              ''- Retweets: '', r, nl,
              ''- Replies: '', p, nl,
              ''- Quotes: '', q, nl])
         = concat
             [''Twitter/X Post by @'', a, nl,
              ''Tweet ID: '', t, nl,
              ''Posted: '', d, nl,
              nl,
              ''Content:'', nl,
              c, nl,
              nl,
              ''Engagement:'', nl,
              ''- Likes: '', l, nl,
              ''- Retweets: '', r, nl,
              ''- Replies: '', p, nl,
              ''- Quotes: '', q]"
proof -
  let ?m = "concat
             [''witter/X Post by @'', a, nl,
              ''Tweet ID: '', t, nl,
              ''Posted: '', d, nl,
              nl,
              ''Content:'', nl,
              c, nl,
              nl,
              ''Engagement:'', nl,
              ''- Likes: '', l, nl,
              ''- Retweets: '', r, nl,
              ''- Replies: '', p, nl,
              ''- Quotes: '']"
  have ns: "\<not> py_isspace (CHR ''T'')" by (simp add: py_isspace_def)
  from strip_framed[OF ns assms, of ?m] show ?thesis by simp
qed

lemma strip_without_date:
  assumes "q \<noteq> []" and "\<not> py_isspace (last q)"
  shows "py_strip (concat
             [nl, ''Twitter/X Post by @'', a, nl,
              ''Tweet ID: '', t, nl,
              nl,
              ''Content:'', nl,
              c, nl,
              nl,
              ''Engagement:'', nl,
              ''- Likes: '', l, nl,
              ''- Retweets: '', r, nl,
              ''- Replies: '', p, nl,
              ''- Quotes: '', q, nl])
         = concat
             [''Twitter/X Post by @'', a, nl,
              ''Tweet ID: '', t, nl,
              nl,
              ''Content:'', nl,
              c, nl,
              nl,
              ''Engagement:'', nl,
              ''- Likes: '', l, nl,
              ''- Retweets: '', r, nl,
              ''- Replies: '', p, nl,
              ''- Quotes: '', q]"
proof -
  let ?m = "concat
             [''witter/X Post by @'', a, nl,
              ''Tweet ID: '', t, nl,
              nl,
              ''Content:'', nl,
              c, nl,
              nl,
              ''Engagement:'', nl,
              ''- Likes: '', l, nl,
              ''- Retweets: '', r, nl,
              ''- Replies: '', p, nl,
              ''- Quotes: '']"
  have ns: "\<not> py_isspace (CHR ''T'')" by (simp add: py_isspace_def)
  from strip_framed[OF ns assms, of ?m] show ?thesis by simp
qed

lemma tweet_object_fixture_result:
  "extract_from_tweet_object rt
     (tweet_object_fixture body author posted likes retweets replies quotes) tweet_id =
   Some (PDict
     [(''success'', PBool True),
      (''title'', PStr (''Twitter/X Post by @'' @ author)),
      (''extracted_content'',
       PStr (''Twitter/X Post by @'' @ author @ nl @ ''Tweet ID: '' @ tweet_id @ nl
             @ ''Posted: '' @ py_str rt posted @ nl @ nl
             @ content_block body likes retweets replies quotes)),
      (''word_count'', PInt (int (length (py_split body)))),
      (''metadata'',
       PDict [(''tweet_id'', PStr tweet_id),
              (''author'', PStr author),
              (''date'', posted),
              (''likes'', PInt likes),
              (''retweets'', PInt retweets),
              (''replies'', PInt replies),
              (''quotes'', PInt quotes)])])"
  using str_int_end[of quotes]
  by (simp add: extract_from_tweet_object_def tweet_object_body_def tweet_object_fixture_def
        Let_def dict_literal_def strip_with_date content_block_def del: concat.simps)
     simp

lemma raw_fixture_result:
  "extract_from_raw_response rt (raw_fixture body author likes retweets replies quotes) tweet_id =
   Some (PDict
     [(''success'', PBool True),
      (''title'', PStr (''Twitter/X Post by @'' @ author)),
      (''extracted_content'',
       PStr (''Twitter/X Post by @'' @ author @ nl @ ''Tweet ID: '' @ tweet_id @ nl @ nl
             @ content_block body likes retweets replies quotes)),
      (''word_count'', PInt (int (length (py_split body)))),
      (''metadata'',
       PDict [(''tweet_id'', PStr tweet_id),
              (''author'', PStr author),
              (''likes'', PInt likes),
              (''retweets'', PInt retweets),
              (''replies'', PInt replies),
              (''quotes'', PInt quotes)])])"
  using str_int_end[of quotes]
  by (simp add: extract_from_raw_response_def raw_response_body_def raw_fixture_def
        instructions_fixture_def tweet_result_fixture_def instruction_step_def tweet_entry_def
        Let_def dict_literal_def strip_without_date content_block_def del: concat.simps)
     simp

text \<open>
  C3. One post, given as a tweet object (to the tweet-object parser, directly or as the
  first item the search yields) and as a raw document (to the raw parser), comes out
  with the same identifier, author and four metrics in the metadata, the same word
  count, and the same block of body text and metrics in the rendered text. (The
  tweet-object result carries the timestamp in addition, as \<open>date\<close> and as the line
  \<open>Posted:\<close>.)
\<close>

theorem cross_strategy_equivalence:
  "map_option canonical_fields
     (extract_from_tweet_object rt
        (tweet_object_fixture body author posted likes retweets replies quotes) tweet_id)
     = Some [Some (PStr tweet_id), Some (PStr author), Some (PInt likes), Some (PInt retweets),
             Some (PInt replies), Some (PInt quotes)]
   \<and> (search api calls (''id:'' @ tweet_id) 1
         = Inr (tweet_object_fixture body author posted likes retweets replies quotes # others) \<longrightarrow>
       map_option canonical_fields
         (extract_from_tweet_object rt (fst (try_search_method api calls tweet_id)) tweet_id)
         = Some [Some (PStr tweet_id), Some (PStr author), Some (PInt likes),
                 Some (PInt retweets), Some (PInt replies), Some (PInt quotes)])
   \<and> map_option canonical_fields
       (extract_from_raw_response rt
          (raw_fixture body author likes retweets replies quotes) tweet_id)
     = Some [Some (PStr tweet_id), Some (PStr author), Some (PInt likes), Some (PInt retweets),
             Some (PInt replies), Some (PInt quotes)]
   \<and> map_option (result_item ''word_count'')
       (extract_from_tweet_object rt
          (tweet_object_fixture body author posted likes retweets replies quotes) tweet_id)
     = Some (Some (PInt (int (length (py_split body)))))
   \<and> map_option (result_item ''word_count'')
       (extract_from_raw_response rt
          (raw_fixture body author likes retweets replies quotes) tweet_id)
     = Some (Some (PInt (int (length (py_split body)))))
   \<and> map_option (result_item ''extracted_content'')
       (extract_from_tweet_object rt
          (tweet_object_fixture body author posted likes retweets replies quotes) tweet_id)
     = Some (Some (PStr (''Twitter/X Post by @'' @ author @ nl @ ''Tweet ID: '' @ tweet_id @ nl
                         @ ''Posted: '' @ py_str rt posted @ nl @ nl
                         @ content_block body likes retweets replies quotes)))
   \<and> map_option (result_item ''extracted_content'')
       (extract_from_raw_response rt
          (raw_fixture body author likes retweets replies quotes) tweet_id)
     = Some (Some (PStr (''Twitter/X Post by @'' @ author @ nl @ ''Tweet ID: '' @ tweet_id @ nl
                         @ nl @ content_block body likes retweets replies quotes)))"
proof -
  have first: "search api calls (''id:'' @ tweet_id) 1
         = Inr (tweet_object_fixture body author posted likes retweets replies quotes # others) \<Longrightarrow>
       fst (try_search_method api calls tweet_id)
         = tweet_object_fixture body author posted likes retweets replies quotes"
    by (simp add: try_search_method_def)
  show ?thesis
    by (simp add: tweet_object_fixture_result raw_fixture_result first canonical_fields_def
          result_item_def dict_lookup_def)
qed

theorem cross_strategy_equivalence_witness:
  "map_option canonical_fields (extract_from_tweet_object sample_runtime sample_object ''99'')
     = Some [Some (PStr ''99''), Some (PStr ''alice''), Some (PInt 1), Some (PInt 2),
             Some (PInt 3), Some (PInt 4)]
   \<and> search (fixed_api (Inr PNone) (Inr [sample_object]) (Inr None)) [] (''id:'' @ ''99'') 1
       = Inr [sample_object]
   \<and> map_option canonical_fields
       (extract_from_tweet_object sample_runtime
          (fst (try_search_method (fixed_api (Inr PNone) (Inr [sample_object]) (Inr None))
                  [] ''99'')) ''99'')
     = Some [Some (PStr ''99''), Some (PStr ''alice''), Some (PInt 1), Some (PInt 2),
             Some (PInt 3), Some (PInt 4)]
   \<and> map_option canonical_fields (extract_from_raw_response sample_runtime sample_document ''99'')
     = Some [Some (PStr ''99''), Some (PStr ''alice''), Some (PInt 1), Some (PInt 2),
             Some (PInt 3), Some (PInt 4)]"
proof -
  have s: "search (fixed_api (Inr PNone) (Inr [sample_object]) (Inr None)) [] (''id:'' @ ''99'') 1
       = Inr (tweet_object_fixture ''hello world'' ''alice'' (PStr ''2024-01-01'') 1 2 3 4 # [])"
    by (simp add: fixed_api_def sample_object_def)
  from cross_strategy_equivalence
         [of sample_runtime "''hello world''" "''alice''" "PStr ''2024-01-01''" 1 2 3 4 "''99''"
             "fixed_api (Inr PNone) (Inr [sample_object]) (Inr None)" "[]" "[]"]
  show ?thesis
    using s by (simp add: sample_object_def sample_document_def)
qed

section \<open>The diagnosis, case by case\<close>

text \<open>The first two tests in terms of the client's answer, and the reason the third
  test appends.\<close>

lemma test_tweet_details_answer:
  "test_tweet_details api calls tweet_id d =
     (if details_found (tweet_details api calls tweet_id)
      then Inl (add_reason ''tweet_details method succeeded'' (d\<lparr>accessible := True\<rparr>))
      else Inr (add_reason (details_failure (tweet_details api calls tweet_id)) d))"
  by (simp add: test_tweet_details_def details_found_def details_failure_def split: sum.splits)

lemma test_search_answer:
  "test_search api calls tweet_id d =
     (if search_found (search api calls (''id:'' @ tweet_id) 1)
      then Inl (add_reason ''search method succeeded'' (d\<lparr>accessible := True\<rparr>))
      else Inr (add_reason (search_failure (search api calls (''id:'' @ tweet_id) 1)) d))"
  by (auto simp: test_search_def search_found_def search_failure_def Let_def
        split: sum.splits list.splits)

lemma test_raw_request_simple:
  "tweet_details_raw api calls tweet_id = Inl e \<Longrightarrow>
     test_raw_request rt api calls tweet_id d = add_reason (''Raw request failed: '' @ e) d"
  "tweet_details_raw api calls tweet_id = Inr None \<Longrightarrow>
     test_raw_request rt api calls tweet_id d = add_reason ''Raw request returned None'' d"
  "tweet_details_raw api calls tweet_id = Inr (Some resp) \<Longrightarrow> status_code resp \<noteq> 200 \<Longrightarrow>
     test_raw_request rt api calls tweet_id d =
       add_reason (''Raw request failed with status '' @ str_int (status_code resp)) d"
  by (simp_all add: test_raw_request_def raw_request_body_def lift_raised_def and_then_def)

lemma test_raw_request_appends:
  "\<exists>r. reasons (test_raw_request rt api calls tweet_id d) = reasons d @ [r]"
proof (cases "raw_request_body api calls tweet_id d")
  case (Inl e)
  then show ?thesis by (simp add: test_raw_request_def)
next
  case (Inr d')
  then have "\<exists>r. reasons d' = reasons d @ [r]"
    unfolding raw_request_body_def and_then_def lift_raised_def lift_fault_def
    by (auto split: sum.splits option.splits if_splits)
  with Inr show ?thesis by (simp add: test_raw_request_def)
qed

lemma diagnose_first:
  assumes "details_found (tweet_details api calls tweet_id)"
  shows "diagnose_tweet_accessibility rt api calls tweet_id =
           (\<lparr>diag_tweet_id = tweet_id, accessible = True,
             reasons = [''tweet_details method succeeded''], suggestions = []\<rparr>,
            calls @ [TweetDetails (PStr tweet_id)])"
  using assms
  by (simp add: diagnose_tweet_accessibility_def test_tweet_details_answer add_reason_def)

lemma diagnose_second:
  assumes "\<not> details_found (tweet_details api calls tweet_id)"
    and "search_found (search api (calls @ [TweetDetails (PStr tweet_id)]) (''id:'' @ tweet_id) 1)"
  shows "diagnose_tweet_accessibility rt api calls tweet_id =
           (\<lparr>diag_tweet_id = tweet_id, accessible = True,
             reasons = [details_failure (tweet_details api calls tweet_id),
                        ''search method succeeded''],
             suggestions = []\<rparr>,
            calls @ [TweetDetails (PStr tweet_id), Search (''id:'' @ tweet_id) 1])"
  using assms
  by (simp add: diagnose_tweet_accessibility_def test_tweet_details_answer test_search_answer
        add_reason_def)

lemma diagnose_third:
  assumes "\<not> details_found (tweet_details api calls tweet_id)"
    and "\<not> search_found (search api (calls @ [TweetDetails (PStr tweet_id)]) (''id:'' @ tweet_id) 1)"
  shows "diagnose_tweet_accessibility rt api calls tweet_id =
           (common_suggestions
              (test_raw_request rt api
                 (calls @ [TweetDetails (PStr tweet_id), Search (''id:'' @ tweet_id) 1]) tweet_id
                 \<lparr>diag_tweet_id = tweet_id, accessible = False,
                  reasons = [details_failure (tweet_details api calls tweet_id),
                             search_failure
                               (search api (calls @ [TweetDetails (PStr tweet_id)])
                                  (''id:'' @ tweet_id) 1)],
                  suggestions = []\<rparr>),
            calls @ [TweetDetails (PStr tweet_id), Search (''id:'' @ tweet_id) 1,
                     TweetDetailsRaw (PStr tweet_id)])"
  using assms
  by (simp add: diagnose_tweet_accessibility_def test_tweet_details_answer test_search_answer
        add_reason_def)

text \<open>
  C7. A diagnosis holds exactly one reason per probe executed, and which probes run is
  decided by what the client answers. When \<open>tweet_details\<close> answers a true value, the
  diagnosis returns at once: one probe, one reason, accessible. When it does not and the
  search yields an item, the diagnosis returns after the second probe: two probes, two
  reasons (the literal outcome of the first, then the success of the second),
  accessible. When neither succeeds, all three probes run: three reasons, the first two
  the literal outcomes of the failed probes and the third the one the raw probe
  records (spelled out where the raw request raises, answers \<open>None\<close>, or answers a
  status other than 200), and the tweet is not reported accessible. In every run the
  calls added to the log are the first \<open>n\<close> of the three probes, \<open>n\<close> the number of
  reasons.
\<close>

theorem one_reason_per_probe:
  "snd (diagnose_tweet_accessibility rt api calls tweet_id) =
     calls @ take (length (reasons (fst (diagnose_tweet_accessibility rt api calls tweet_id))))
               [TweetDetails (PStr tweet_id), Search (''id:'' @ tweet_id) 1,
                TweetDetailsRaw (PStr tweet_id)]
   \<and> 1 \<le> length (reasons (fst (diagnose_tweet_accessibility rt api calls tweet_id)))
   \<and> length (reasons (fst (diagnose_tweet_accessibility rt api calls tweet_id))) \<le> 3
   \<and> accessible (fst (diagnose_tweet_accessibility rt api calls tweet_id)) =
       (length (reasons (fst (diagnose_tweet_accessibility rt api calls tweet_id))) < 3)
   \<and> (details_found (tweet_details api calls tweet_id) \<longrightarrow>
      diagnose_tweet_accessibility rt api calls tweet_id =
        (\<lparr>diag_tweet_id = tweet_id, accessible = True,
          reasons = [''tweet_details method succeeded''], suggestions = []\<rparr>,
         calls @ [TweetDetails (PStr tweet_id)]))
   \<and> (\<not> details_found (tweet_details api calls tweet_id)
      \<and> search_found (search api (calls @ [TweetDetails (PStr tweet_id)]) (''id:'' @ tweet_id) 1) \<longrightarrow>
      diagnose_tweet_accessibility rt api calls tweet_id =
        (\<lparr>diag_tweet_id = tweet_id, accessible = True,
          reasons = [details_failure (tweet_details api calls tweet_id),
                     ''search method succeeded''],
          suggestions = []\<rparr>,
         calls @ [TweetDetails (PStr tweet_id), Search (''id:'' @ tweet_id) 1]))
   \<and> (\<not> details_found (tweet_details api calls tweet_id)
      \<and> \<not> search_found
            (search api (calls @ [TweetDetails (PStr tweet_id)]) (''id:'' @ tweet_id) 1) \<longrightarrow>
      snd (diagnose_tweet_accessibility rt api calls tweet_id) =
        calls @ [TweetDetails (PStr tweet_id), Search (''id:'' @ tweet_id) 1,
                   TweetDetailsRaw (PStr tweet_id)]
      \<and> \<not> accessible (fst (diagnose_tweet_accessibility rt api calls tweet_id))
      \<and> length (reasons (fst (diagnose_tweet_accessibility rt api calls tweet_id))) = 3
      \<and> take 2 (reasons (fst (diagnose_tweet_accessibility rt api calls tweet_id))) =
          [details_failure (tweet_details api calls tweet_id),
           search_failure (search api (calls @ [TweetDetails (PStr tweet_id)]) (''id:'' @ tweet_id) 1)]
      \<and> reasons (fst (diagnose_tweet_accessibility rt api calls tweet_id)) =
          reasons (test_raw_request rt api
             (calls @ [TweetDetails (PStr tweet_id), Search (''id:'' @ tweet_id) 1]) tweet_id
             \<lparr>diag_tweet_id = tweet_id, accessible = False,
                reasons = [details_failure (tweet_details api calls tweet_id),
                           search_failure
                             (search api (calls @ [TweetDetails (PStr tweet_id)]) (''id:'' @ tweet_id) 1)],
                suggestions = []\<rparr>))
   \<and> (\<not> details_found (tweet_details api calls tweet_id)
      \<and> \<not> search_found
            (search api (calls @ [TweetDetails (PStr tweet_id)]) (''id:'' @ tweet_id) 1)
      \<and> tweet_details_raw api
           (calls @ [TweetDetails (PStr tweet_id), Search (''id:'' @ tweet_id) 1]) tweet_id = Inl e
      \<longrightarrow>
      reasons (fst (diagnose_tweet_accessibility rt api calls tweet_id)) =
        [details_failure (tweet_details api calls tweet_id),
         search_failure (search api (calls @ [TweetDetails (PStr tweet_id)]) (''id:'' @ tweet_id) 1),
         ''Raw request failed: '' @ e])
   \<and> (\<not> details_found (tweet_details api calls tweet_id)
      \<and> \<not> search_found
            (search api (calls @ [TweetDetails (PStr tweet_id)]) (''id:'' @ tweet_id) 1)
      \<and> tweet_details_raw api
           (calls @ [TweetDetails (PStr tweet_id), Search (''id:'' @ tweet_id) 1]) tweet_id = Inr None
      \<longrightarrow>
      reasons (fst (diagnose_tweet_accessibility rt api calls tweet_id)) =
        [details_failure (tweet_details api calls tweet_id),
         search_failure (search api (calls @ [TweetDetails (PStr tweet_id)]) (''id:'' @ tweet_id) 1),
         ''Raw request returned None''])
   \<and> (\<not> details_found (tweet_details api calls tweet_id)
      \<and> \<not> search_found
            (search api (calls @ [TweetDetails (PStr tweet_id)]) (''id:'' @ tweet_id) 1)
      \<and> tweet_details_raw api
           (calls @ [TweetDetails (PStr tweet_id), Search (''id:'' @ tweet_id) 1]) tweet_id = Inr (Some resp)
      \<and> status_code resp \<noteq> 200
      \<longrightarrow>
      reasons (fst (diagnose_tweet_accessibility rt api calls tweet_id)) =
        [details_failure (tweet_details api calls tweet_id),
         search_failure (search api (calls @ [TweetDetails (PStr tweet_id)]) (''id:'' @ tweet_id) 1),
         ''Raw request failed with status '' @ str_int (status_code resp)])"
proof -
  let ?D = "diagnose_tweet_accessibility rt api calls tweet_id"
  let ?a1 = "tweet_details api calls tweet_id"
  let ?a2 = "search api (calls @ [TweetDetails (PStr tweet_id)]) (''id:'' @ tweet_id) 1"
  let ?c2 = "(calls @ [TweetDetails (PStr tweet_id), Search (''id:'' @ tweet_id) 1])"
  let ?d2 = "\<lparr>diag_tweet_id = tweet_id, accessible = False,
                reasons = [details_failure (tweet_details api calls tweet_id),
                           search_failure
                             (search api (calls @ [TweetDetails (PStr tweet_id)]) (''id:'' @ tweet_id) 1)],
                suggestions = []\<rparr>"
  note count = diagnosis_reason_count[of rt api calls tweet_id]
  have third: "\<not> details_found ?a1 \<and> \<not> search_found ?a2 \<Longrightarrow>
                 ?D = (common_suggestions (test_raw_request rt api ?c2 tweet_id ?d2),
                       calls @ [TweetDetails (PStr tweet_id), Search (''id:'' @ tweet_id) 1,
                   TweetDetailsRaw (PStr tweet_id)])"
    using diagnose_third[of api calls tweet_id rt] by simp
  obtain r where r: "reasons (test_raw_request rt api ?c2 tweet_id ?d2) = reasons ?d2 @ [r]"
    using test_raw_request_appends[of rt api ?c2 tweet_id ?d2] by blast
  have acc: "accessible (test_raw_request rt api ?c2 tweet_id ?d2) = accessible ?d2"
    using test_raw_request_reasons[of rt api ?c2 tweet_id ?d2] by simp
  show ?thesis
  proof (intro conjI impI)
    show "snd ?D = calls @ take (length (reasons (fst ?D)))
               [TweetDetails (PStr tweet_id), Search (''id:'' @ tweet_id) 1,
                TweetDetailsRaw (PStr tweet_id)]"
      using count by simp
    show "1 \<le> length (reasons (fst ?D))" using count by simp
    show "length (reasons (fst ?D)) \<le> 3" using count by simp
    show "accessible (fst ?D) = (length (reasons (fst ?D)) < 3)" using count by simp
  next
    assume "details_found ?a1"
    then show "?D = (\<lparr>diag_tweet_id = tweet_id, accessible = True,
          reasons = [''tweet_details method succeeded''], suggestions = []\<rparr>,
         calls @ [TweetDetails (PStr tweet_id)])"
      by (rule diagnose_first)
  next
    assume "\<not> details_found ?a1 \<and> search_found ?a2"
    then show "?D = (\<lparr>diag_tweet_id = tweet_id, accessible = True,
          reasons = [details_failure ?a1, ''search method succeeded''],
          suggestions = []\<rparr>,
         calls @ [TweetDetails (PStr tweet_id), Search (''id:'' @ tweet_id) 1])"
      using diagnose_second[of api calls tweet_id rt] by simp
  next
    assume h: "\<not> details_found ?a1 \<and> \<not> search_found ?a2"
    show "snd ?D = calls @ [TweetDetails (PStr tweet_id), Search (''id:'' @ tweet_id) 1,
                   TweetDetailsRaw (PStr tweet_id)]"
      using third[OF h] by simp
    show "\<not> accessible (fst ?D)" using third[OF h] acc by simp
    show "length (reasons (fst ?D)) = 3" using third[OF h] r by simp
    show "take 2 (reasons (fst ?D)) = [details_failure ?a1, search_failure ?a2]"
      using third[OF h] r by simp
    show "reasons (fst ?D) = reasons (test_raw_request rt api ?c2 tweet_id ?d2)"
      using third[OF h] by simp
  next
    assume h: "\<not> details_found ?a1 \<and> \<not> search_found ?a2
               \<and> tweet_details_raw api ?c2 tweet_id = Inl e"
    then have "?D = (common_suggestions (test_raw_request rt api ?c2 tweet_id ?d2),
                       calls @ [TweetDetails (PStr tweet_id), Search (''id:'' @ tweet_id) 1,
                   TweetDetailsRaw (PStr tweet_id)])"
      using third by simp
    then show "reasons (fst ?D) =
        [details_failure ?a1, search_failure ?a2, ''Raw request failed: '' @ e]"
      using h test_raw_request_simple(1)[of api ?c2 tweet_id e rt ?d2] by simp
  next
    assume h: "\<not> details_found ?a1 \<and> \<not> search_found ?a2
               \<and> tweet_details_raw api ?c2 tweet_id = Inr None"
    then have "?D = (common_suggestions (test_raw_request rt api ?c2 tweet_id ?d2),
                       calls @ [TweetDetails (PStr tweet_id), Search (''id:'' @ tweet_id) 1,
                   TweetDetailsRaw (PStr tweet_id)])"
      using third by simp
    then show "reasons (fst ?D) =
        [details_failure ?a1, search_failure ?a2, ''Raw request returned None'']"
      using h test_raw_request_simple(2)[of api ?c2 tweet_id rt ?d2] by simp
  next
    assume h: "\<not> details_found ?a1 \<and> \<not> search_found ?a2
               \<and> tweet_details_raw api ?c2 tweet_id = Inr (Some resp)
               \<and> status_code resp \<noteq> 200"
    then have "?D = (common_suggestions (test_raw_request rt api ?c2 tweet_id ?d2),
                       calls @ [TweetDetails (PStr tweet_id), Search (''id:'' @ tweet_id) 1,
                   TweetDetailsRaw (PStr tweet_id)])"
      using third by simp
    then show "reasons (fst ?D) =
        [details_failure ?a1, search_failure ?a2,
         ''Raw request failed with status '' @ str_int (status_code resp)]"
      using h test_raw_request_simple(3)[of api ?c2 tweet_id resp rt ?d2] by simp
  qed
qed

lemma fixed_api_answers:
  "tweet_details (fixed_api d s r) calls tweet_id = d"
  "search (fixed_api d s r) calls query limit = s"
  "tweet_details_raw (fixed_api d s r) calls tweet_id = r"
  by (simp_all add: fixed_api_def)

theorem one_reason_per_probe_witness:
  "(details_found (tweet_details (fixed_api (Inr sample_object) (Inr []) (Inr None)) [] ''99'')
    \<and> diagnose_tweet_accessibility sample_runtime
         (fixed_api (Inr sample_object) (Inr []) (Inr None)) [] ''99'' =
        (\<lparr>diag_tweet_id = ''99'', accessible = True,
          reasons = [''tweet_details method succeeded''], suggestions = []\<rparr>,
         [TweetDetails (PStr ''99'')]))
   \<and> (\<not> details_found
          (tweet_details (fixed_api (Inr PNone) (Inr [sample_object]) (Inr None)) [] ''99'')
    \<and> search_found
          (search (fixed_api (Inr PNone) (Inr [sample_object]) (Inr None))
             [TweetDetails (PStr ''99'')] ''id:99'' 1)
    \<and> diagnose_tweet_accessibility sample_runtime
         (fixed_api (Inr PNone) (Inr [sample_object]) (Inr None)) [] ''99'' =
        (\<lparr>diag_tweet_id = ''99'', accessible = True,
          reasons = [''tweet_details returned None'', ''search method succeeded''],
          suggestions = []\<rparr>,
         [TweetDetails (PStr ''99''), Search ''id:99'' 1]))
   \<and> (\<not> details_found
          (tweet_details (fixed_api (Inl ''timeout'') (Inl ''timeout'') (Inl ''timeout'')) []
             ''99'')
    \<and> \<not> search_found
          (search (fixed_api (Inl ''timeout'') (Inl ''timeout'') (Inl ''timeout''))
             [TweetDetails (PStr ''99'')] ''id:99'' 1)
    \<and> tweet_details_raw (fixed_api (Inl ''timeout'') (Inl ''timeout'') (Inl ''timeout''))
          [TweetDetails (PStr ''99''), Search ''id:99'' 1] ''99'' = Inl ''timeout''
    \<and> snd (diagnose_tweet_accessibility sample_runtime
              (fixed_api (Inl ''timeout'') (Inl ''timeout'') (Inl ''timeout'')) [] ''99'') =
        [TweetDetails (PStr ''99''), Search ''id:99'' 1, TweetDetailsRaw (PStr ''99'')]
    \<and> \<not> accessible (fst (diagnose_tweet_accessibility sample_runtime
              (fixed_api (Inl ''timeout'') (Inl ''timeout'') (Inl ''timeout'')) [] ''99''))
    \<and> reasons (fst (diagnose_tweet_accessibility sample_runtime
              (fixed_api (Inl ''timeout'') (Inl ''timeout'') (Inl ''timeout'')) [] ''99'')) =
        [''tweet_details failed: timeout'', ''search failed: timeout'',
         ''Raw request failed: timeout''])
   \<and> (\<not> details_found (tweet_details (fixed_api (Inr PNone) (Inr []) (Inr None)) [] ''99'')
    \<and> \<not> search_found
          (search (fixed_api (Inr PNone) (Inr []) (Inr None))
             [TweetDetails (PStr ''99'')] ''id:99'' 1)
    \<and> tweet_details_raw (fixed_api (Inr PNone) (Inr []) (Inr None))
          [TweetDetails (PStr ''99''), Search ''id:99'' 1] ''99'' = Inr None
    \<and> reasons (fst (diagnose_tweet_accessibility sample_runtime
              (fixed_api (Inr PNone) (Inr []) (Inr None)) [] ''99'')) =
        [''tweet_details returned None'', ''search returned no results'',
         ''Raw request returned None''])
   \<and> (\<not> details_found
          (tweet_details
             (fixed_api (Inr PNone) (Inr [])
                (Inr (Some \<lparr>status_code = 404, json = Inl ''no document''\<rparr>))) [] ''99'')
    \<and> \<not> search_found
          (search
             (fixed_api (Inr PNone) (Inr [])
                (Inr (Some \<lparr>status_code = 404, json = Inl ''no document''\<rparr>)))
             [TweetDetails (PStr ''99'')] ''id:99'' 1)
    \<and> status_code \<lparr>status_code = 404, json = Inl ''no document''\<rparr> \<noteq> 200
    \<and> reasons (fst (diagnose_tweet_accessibility sample_runtime
              (fixed_api (Inr PNone) (Inr [])
                 (Inr (Some \<lparr>status_code = 404, json = Inl ''no document''\<rparr>))) [] ''99'')) =
        [''tweet_details returned None'', ''search returned no results'',
         ''Raw request failed with status '' @ str_int 404])"
proof -
  let ?none = "\<lparr>status_code = 404, json = Inl ''no document''\<rparr>"
  note defs = fixed_api_answers details_found_def details_failure_def search_found_def
    search_failure_def
  have w1: "diagnose_tweet_accessibility sample_runtime
         (fixed_api (Inr sample_object) (Inr []) (Inr None)) [] ''99'' =
        (\<lparr>diag_tweet_id = ''99'', accessible = True,
          reasons = [''tweet_details method succeeded''], suggestions = []\<rparr>,
         [TweetDetails (PStr ''99'')])"
    using one_reason_per_probe
            [of sample_runtime "fixed_api (Inr sample_object) (Inr []) (Inr None)" "[]" "''99''",
             THEN conjunct2, THEN conjunct2, THEN conjunct2, THEN conjunct2, THEN conjunct1]
      sample_object_parsed(1)
    by (simp add: defs)
  have w2: "diagnose_tweet_accessibility sample_runtime
         (fixed_api (Inr PNone) (Inr [sample_object]) (Inr None)) [] ''99'' =
        (\<lparr>diag_tweet_id = ''99'', accessible = True,
          reasons = [''tweet_details returned None'', ''search method succeeded''],
          suggestions = []\<rparr>,
         [TweetDetails (PStr ''99''), Search ''id:99'' 1])"
    using one_reason_per_probe
            [of sample_runtime "fixed_api (Inr PNone) (Inr [sample_object]) (Inr None)" "[]"
                "''99''",
             THEN conjunct2, THEN conjunct2, THEN conjunct2, THEN conjunct2, THEN conjunct2,
             THEN conjunct1]
    by (simp add: defs)
  have w3: "snd (diagnose_tweet_accessibility sample_runtime
              (fixed_api (Inl ''timeout'') (Inl ''timeout'') (Inl ''timeout'')) [] ''99'') =
        [TweetDetails (PStr ''99''), Search ''id:99'' 1, TweetDetailsRaw (PStr ''99'')]
    \<and> \<not> accessible (fst (diagnose_tweet_accessibility sample_runtime
              (fixed_api (Inl ''timeout'') (Inl ''timeout'') (Inl ''timeout'')) [] ''99''))"
    using one_reason_per_probe
            [of sample_runtime "fixed_api (Inl ''timeout'') (Inl ''timeout'') (Inl ''timeout'')"
                "[]" "''99''",
             THEN conjunct2, THEN conjunct2, THEN conjunct2, THEN conjunct2, THEN conjunct2,
             THEN conjunct2, THEN conjunct1]
    by (simp add: defs)
  have w4: "reasons (fst (diagnose_tweet_accessibility sample_runtime
              (fixed_api (Inl ''timeout'') (Inl ''timeout'') (Inl ''timeout'')) [] ''99'')) =
        [''tweet_details failed: timeout'', ''search failed: timeout'',
         ''Raw request failed: timeout'']"
    using one_reason_per_probe
            [of sample_runtime "fixed_api (Inl ''timeout'') (Inl ''timeout'') (Inl ''timeout'')"
                "[]" "''99''" "''timeout''",
             THEN conjunct2, THEN conjunct2, THEN conjunct2, THEN conjunct2, THEN conjunct2,
             THEN conjunct2, THEN conjunct2, THEN conjunct1]
    by (simp add: defs)
  have w5: "reasons (fst (diagnose_tweet_accessibility sample_runtime
              (fixed_api (Inr PNone) (Inr []) (Inr None)) [] ''99'')) =
        [''tweet_details returned None'', ''search returned no results'',
         ''Raw request returned None'']"
    using one_reason_per_probe
            [of sample_runtime "fixed_api (Inr PNone) (Inr []) (Inr None)" "[]" "''99''",
             THEN conjunct2, THEN conjunct2, THEN conjunct2, THEN conjunct2, THEN conjunct2,
             THEN conjunct2, THEN conjunct2, THEN conjunct2, THEN conjunct1]
    by (simp add: defs)
  have w6: "reasons (fst (diagnose_tweet_accessibility sample_runtime
              (fixed_api (Inr PNone) (Inr []) (Inr (Some ?none))) [] ''99'')) =
        [''tweet_details returned None'', ''search returned no results'',
         ''Raw request failed with status '' @ str_int 404]"
    using one_reason_per_probe
            [of sample_runtime "fixed_api (Inr PNone) (Inr []) (Inr (Some ?none))" "[]" "''99''"
                _ ?none,
             THEN conjunct2, THEN conjunct2, THEN conjunct2, THEN conjunct2, THEN conjunct2,
             THEN conjunct2, THEN conjunct2, THEN conjunct2, THEN conjunct2]
    by (simp add: defs)
  show ?thesis
    using w1 w2 w3 w4 w5 w6 sample_object_parsed(1) by (simp add: defs)
qed

end
